theory Spec2Isabelle
  imports Complex_Main
begin

section \<open>Python values, errors and the standard-library calendar\<close>

text \<open>
  The reward functions of \<^verbatim>\<open>sinergym/utils/rewards.py\<close> read an observation dictionary
  and compute with Python floats. Floats are modelled as exact reals: rounding, NaN and
  infinities are outside the model. A variable name is any Python object; the only thing
  the code asks of it is \<^verbatim>\<open>isinstance(v, str)\<close>, so a name is either a string or a
  non-string object identified by a tag.
\<close>

datatype name = Str string | NotStr int

fun isinstance_str :: "name \<Rightarrow> bool" where
  "isinstance_str (Str s) = True"
| "isinstance_str (NotStr n) = False"

datatype error = ValueError | TypeError | KeyError name | IndexError

type_synonym obs_dict = "name \<rightharpoonup> real"

text \<open>\<^verbatim>\<open>obs_dict[v]\<close>: a missing key raises KeyError.\<close>

definition getitem :: "obs_dict \<Rightarrow> name \<Rightarrow> error + real" where
  "getitem obs_dict v = (case obs_dict v of None \<Rightarrow> Inl (KeyError v) | Some x \<Rightarrow> Inr x)"

text \<open>\<^verbatim>\<open>[obs_dict[v] for v in names]\<close>: the first missing key raises.\<close>

fun getitems :: "obs_dict \<Rightarrow> name list \<Rightarrow> error + real list" where
  "getitems obs_dict [] = Inr []"
| "getitems obs_dict (v # vs) =
     (case getitem obs_dict v of
        Inl e \<Rightarrow> Inl e
      | Inr x \<Rightarrow> (case getitems obs_dict vs of Inl e \<Rightarrow> Inl e | Inr xs \<Rightarrow> Inr (x # xs)))"

text \<open>\<^verbatim>\<open>int(x)\<close> on a float truncates toward zero.\<close>

definition py_int :: "real \<Rightarrow> int" where
  "py_int x = (if 0 \<le> x then \<lfloor>x\<rfloor> else \<lceil>x\<rceil>)"

text \<open>
  \<^verbatim>\<open>datetime(year, month, day, hour)\<close> of the standard library: the constructor checks
  every field and raises ValueError; \<^verbatim>\<open>weekday()\<close> is \<^verbatim>\<open>(toordinal() + 6) % 7\<close>,
  Monday being 0.
\<close>

record datetime =
  dt_year :: int
  dt_month :: int
  dt_day :: int
  dt_hour :: int

definition is_leap :: "int \<Rightarrow> bool" where
  "is_leap year = (year mod 4 = 0 \<and> (year mod 100 \<noteq> 0 \<or> year mod 400 = 0))"

definition days_in_month :: "int \<Rightarrow> int \<Rightarrow> int" where
  "days_in_month year month =
     (if month = 2 \<and> is_leap year then 29
      else [31, 28, 31, 30, 31, 30, 31, 31, 30, 31, 30, 31] ! nat (month - 1))"

definition days_before_year :: "int \<Rightarrow> int" where
  "days_before_year year =
     (let y = year - 1 in y * 365 + y div 4 - y div 100 + y div 400)"

definition days_before_month :: "int \<Rightarrow> int \<Rightarrow> int" where
  "days_before_month year month =
     [0, 31, 59, 90, 120, 151, 181, 212, 243, 273, 304, 334] ! nat (month - 1)
       + (if month > 2 \<and> is_leap year then 1 else 0)"

definition ymd2ord :: "int \<Rightarrow> int \<Rightarrow> int \<Rightarrow> int" where
  "ymd2ord year month day = days_before_year year + days_before_month year month + day"

definition new_datetime :: "int \<Rightarrow> int \<Rightarrow> int \<Rightarrow> int \<Rightarrow> error + datetime" where
  "new_datetime year month day hour =
     (if \<not> (1 \<le> year \<and> year \<le> 9999) then Inl ValueError
      else if \<not> (1 \<le> month \<and> month \<le> 12) then Inl ValueError
      else if \<not> (1 \<le> day \<and> day \<le> days_in_month year month) then Inl ValueError
      else if \<not> (0 \<le> hour \<and> hour \<le> 23) then Inl ValueError
      else Inr \<lparr>dt_year = year, dt_month = month, dt_day = day, dt_hour = hour\<rparr>)"

definition weekday :: "datetime \<Rightarrow> int" where
  "weekday dt = (ymd2ord (dt_year dt) (dt_month dt) (dt_day dt) + 6) mod 7"

text \<open>
  \<^verbatim>\<open>pd.Timestamp(year=, month=, day=)\<close>: a date at midnight; an invalid calendar date
  raises ValueError.
\<close>

definition Timestamp :: "int \<Rightarrow> int \<Rightarrow> int \<Rightarrow> error + datetime" where
  "Timestamp year month day = new_datetime year month day 0"

text \<open>
  The presence schedule read by \<^verbatim>\<open>pd.read_csv(schedule_csv, parse_dates=['date'])\<close>:
  a table with the columns \<^verbatim>\<open>date\<close>, \<^verbatim>\<open>hour\<close> and \<^verbatim>\<open>my_factor\<close>, one row per slot.
  Reading the file is input/output; the model takes the table.
\<close>

record schedule_row =
  sr_date :: datetime
  sr_hour :: int
  sr_my_factor :: real

type_synonym schedule = "schedule_row list"

text \<open>
  The selection \<^verbatim>\<open>schedule[(schedule['date'] == current_date) & (schedule['hour'] == current_hour)]\<close>.
\<close>

definition schedule_rows :: "schedule \<Rightarrow> datetime \<Rightarrow> int \<Rightarrow> schedule" where
  "schedule_rows sched current_date current_hour =
     filter (\<lambda>r. sr_date r = current_date \<and> sr_hour r = current_hour) sched"

section \<open>The tariff file\<close>

text \<open>
  The JSON tariff \<^verbatim>\<open>{"precios": {"punta", "fuera_de_punta"}, "horarios": {"punta_inicio",
  "punta_fin", "dias_punta"}}\<close> after \<^verbatim>\<open>json.load\<close>.
\<close>

record tarifa =
  tf_punta :: real
  tf_fuera_de_punta :: real
  tf_punta_inicio :: int
  tf_punta_fin :: int
  tf_dias_punta :: "string list"

definition dias_map :: "string \<rightharpoonup> int" where
  "dias_map = [''lunes'' \<mapsto> 0, ''martes'' \<mapsto> 1, ''miercoles'' \<mapsto> 2,
               ''jueves'' \<mapsto> 3, ''viernes'' \<mapsto> 4, ''sabado'' \<mapsto> 5, ''domingo'' \<mapsto> 6]"

text \<open>\<^verbatim>\<open>[dias_map[d] for d in tarifa['horarios']['dias_punta']]\<close>\<close>

fun dias_lookup :: "string list \<Rightarrow> error + int list" where
  "dias_lookup [] = Inr []"
| "dias_lookup (d # ds) =
     (case dias_map d of
        None \<Rightarrow> Inl (KeyError (Str d))
      | Some n \<Rightarrow> (case dias_lookup ds of Inl e \<Rightarrow> Inl e | Inr ns \<Rightarrow> Inr (n # ns)))"

section \<open>NuestroRewardMultizona\<close>

record NuestroRewardMultizona =
  mz_temp_names :: "name list"
  mz_hum_names :: "name list"
  mz_energy_names :: "name list"
  mz_W_energy :: real
  mz_lambda_energy :: real
  mz_lambda_temp :: real
  mz_precio_punta :: real
  mz_precio_fuera_punta :: real
  mz_punta_inicio :: int
  mz_punta_fin :: int
  mz_dias_punta :: "int list"

text \<open>
  \<^verbatim>\<open>NuestroRewardMultizona.__init__\<close>. \<open>tarifa_json\<close> is the parsed tariff file, or
  None when no path is given.
\<close>

definition NuestroRewardMultizona_init ::
  "name list \<Rightarrow> name list \<Rightarrow> name list \<Rightarrow> real \<Rightarrow> real \<Rightarrow> real \<Rightarrow> tarifa option \<Rightarrow> real \<Rightarrow> real
     \<Rightarrow> error + NuestroRewardMultizona" where
  "NuestroRewardMultizona_init temperature_variables humidity_variables energy_variables
       energy_weight lambda_energy lambda_temperature tarifa_json high_price low_price =
     (if \<not> (0 \<le> energy_weight \<and> energy_weight \<le> 1) then Inl ValueError
      else if \<not> list_all isinstance_str (temperature_variables @ energy_variables)
        then Inl TypeError
      else
        (case tarifa_json of
           Some tarifa \<Rightarrow>
             (case dias_lookup (tf_dias_punta tarifa) of
                Inl e \<Rightarrow> Inl e
              | Inr dias \<Rightarrow>
                  Inr \<lparr>mz_temp_names = temperature_variables,
                       mz_hum_names = humidity_variables,
                       mz_energy_names = energy_variables,
                       mz_W_energy = energy_weight,
                       mz_lambda_energy = lambda_energy,
                       mz_lambda_temp = lambda_temperature,
                       mz_precio_punta = tf_punta tarifa,
                       mz_precio_fuera_punta = tf_fuera_de_punta tarifa,
                       mz_punta_inicio = tf_punta_inicio tarifa,
                       mz_punta_fin = tf_punta_fin tarifa,
                       mz_dias_punta = dias\<rparr>)
         | None \<Rightarrow>
             Inr \<lparr>mz_temp_names = temperature_variables,
                  mz_hum_names = humidity_variables,
                  mz_energy_names = energy_variables,
                  mz_W_energy = energy_weight,
                  mz_lambda_energy = lambda_energy,
                  mz_lambda_temp = lambda_temperature,
                  mz_precio_punta = high_price,
                  mz_precio_fuera_punta = low_price,
                  mz_punta_inicio = 17,
                  mz_punta_fin = 20,
                  mz_dias_punta = [0, 1, 2, 3, 4]\<rparr>))"

text \<open>
  \<^verbatim>\<open>NuestroRewardMultizona._calculate_pmv_violation(tdb, rh, total_energy)\<close>: returns
  \<open>(pmv, violation)\<close>. The body never reads \<open>total_energy\<close>.
\<close>

definition mz_calculate_pmv_violation :: "real \<Rightarrow> real \<Rightarrow> real \<Rightarrow> real \<times> real" where
  "mz_calculate_pmv_violation tdb rh total_energy =
     (let pmv = - 7.4928 + 0.2882 * tdb - 0.0020 * rh + 0.0004 * tdb * rh;
          d = max (- 0.5 - pmv) 0.0 + max (pmv - 0.5) 0.0;
          violation = d + d * d
      in (pmv, violation))"

text \<open>
  The loop of \<^verbatim>\<open>_get_temperature_violation\<close> over \<^verbatim>\<open>zip(temp_names, hum_names)\<close>:
  it returns \<open>(violations, pmv_values)\<close>, one entry per pair, in order.
\<close>

fun mz_zones :: "obs_dict \<Rightarrow> real \<Rightarrow> (name \<times> name) list \<Rightarrow> error + (real list \<times> real list)" where
  "mz_zones obs_dict total_energy [] = Inr ([], [])"
| "mz_zones obs_dict total_energy ((temp_var, hum_var) # rest) =
     (case getitem obs_dict temp_var of
        Inl e \<Rightarrow> Inl e
      | Inr tdb \<Rightarrow>
     (case getitem obs_dict hum_var of
        Inl e \<Rightarrow> Inl e
      | Inr rh \<Rightarrow>
     (case mz_calculate_pmv_violation tdb rh total_energy of
        (pmv, violation) \<Rightarrow>
     (case mz_zones obs_dict total_energy rest of
        Inl e \<Rightarrow> Inl e
      | Inr (violations, pmv_values) \<Rightarrow> Inr (violation # violations, pmv # pmv_values)))))"

definition mz_get_temperature_violation ::
  "NuestroRewardMultizona \<Rightarrow> obs_dict \<Rightarrow> real \<Rightarrow> error + (real list \<times> real list)" where
  "mz_get_temperature_violation self obs_dict total_energy =
     mz_zones obs_dict total_energy (zip (mz_temp_names self) (mz_hum_names self))"

definition mz_get_energy_consumed :: "NuestroRewardMultizona \<Rightarrow> obs_dict \<Rightarrow> error + real list" where
  "mz_get_energy_consumed self obs_dict = getitems obs_dict (mz_energy_names self)"

text \<open>The dictionary \<^verbatim>\<open>reward_terms\<close> returned beside the reward.\<close>

record reward_terms =
  energy_term :: real
  comfort_term :: real
  energy_penalty :: real
  comfort_penalty :: real
  total_power_demand :: real
  total_temperature_violation :: real
  reward_weight :: real

record mz_reward_terms = reward_terms +
  mz_avg_pmv :: real
  mz_price_kwh :: real

text \<open>
  \<^verbatim>\<open>NuestroRewardMultizona.__call__\<close>. \<open>YEAR\<close> is the constant imported from
  \<^verbatim>\<open>sinergym.utils.constants\<close>, a parameter here. The attributes \<^verbatim>\<open>total_energy\<close>,
  \<^verbatim>\<open>energy_penalty\<close>, \<^verbatim>\<open>total_temp_violation\<close> and \<^verbatim>\<open>comfort_penalty\<close> are written
  before they are read in every call, so they are local values of the model.
\<close>

definition NuestroRewardMultizona_call ::
  "int \<Rightarrow> NuestroRewardMultizona \<Rightarrow> obs_dict \<Rightarrow> error + (real \<times> mz_reward_terms)" where
  "NuestroRewardMultizona_call YEAR self obs_dict =
     (case getitem obs_dict (Str ''month'') of
        Inl e \<Rightarrow> Inl e
      | Inr obs_month \<Rightarrow>
     (case getitem obs_dict (Str ''day_of_month'') of
        Inl e \<Rightarrow> Inl e
      | Inr obs_day \<Rightarrow>
     (case getitem obs_dict (Str ''hour'') of
        Inl e \<Rightarrow> Inl e
      | Inr obs_hour \<Rightarrow>
     (let month = max 1 (min 12 (py_int obs_month));
          day = max 1 (min 28 (py_int obs_day));
          hour_raw = max 0 (min 23 (py_int obs_hour))
      in
     (case new_datetime YEAR month day hour_raw of
        Inl e \<Rightarrow> Inl e
      | Inr current_dt \<Rightarrow>
     (let wd = weekday current_dt;
          hour = dt_hour current_dt;
          price_kwh =
            (if wd \<in> set (mz_dias_punta self)
                \<and> mz_punta_inicio self \<le> hour \<and> hour \<le> mz_punta_fin self
             then mz_precio_punta self else mz_precio_fuera_punta self)
      in
     (case mz_get_energy_consumed self obs_dict of
        Inl e \<Rightarrow> Inl e
      | Inr energy_values \<Rightarrow>
     (let total_energy = sum_list energy_values;
          energy_penalty = - (total_energy / 1000) * price_kwh
      in
     (case mz_get_temperature_violation self obs_dict total_energy of
        Inl e \<Rightarrow> Inl e
      | Inr (temp_violations, pmv_values) \<Rightarrow>
     (let total_temp_violation = sum_list temp_violations;
          comfort_penalty = - total_temp_violation;
          avg_pmv = sum_list pmv_values / real (max (length pmv_values) 1);
          energy_term = mz_lambda_energy self * mz_W_energy self * energy_penalty;
          comfort_term = mz_lambda_temp self * (1 - mz_W_energy self) * comfort_penalty;
          reward = energy_term + comfort_term
      in Inr (reward,
              \<lparr>energy_term = energy_term,
               comfort_term = comfort_term,
               energy_penalty = energy_penalty,
               comfort_penalty = comfort_penalty,
               total_power_demand = total_energy,
               total_temperature_violation = total_temp_violation,
               reward_weight = mz_W_energy self,
               mz_avg_pmv = avg_pmv,
               mz_price_kwh = price_kwh\<rparr>)))))))))))"

section \<open>LinearReward\<close>

record LinearReward =
  lr_temp_names :: "name list"
  lr_energy_names :: "name list"
  lr_range_comfort_winter :: "real \<times> real"
  lr_range_comfort_summer :: "real \<times> real"
  lr_W_energy :: real
  lr_lambda_energy :: real
  lr_lambda_temp :: real
  lr_summer_start :: "int \<times> int"
  lr_summer_final :: "int \<times> int"

text \<open>\<^verbatim>\<open>LinearReward.__init__\<close>\<close>

definition LinearReward_init ::
  "name list \<Rightarrow> name list \<Rightarrow> real \<times> real \<Rightarrow> real \<times> real \<Rightarrow> int \<times> int \<Rightarrow> int \<times> int
     \<Rightarrow> real \<Rightarrow> real \<Rightarrow> real \<Rightarrow> error + LinearReward" where
  "LinearReward_init temperature_variables energy_variables range_comfort_winter
       range_comfort_summer summer_start summer_final energy_weight lambda_energy
       lambda_temperature =
     (if \<not> (0 \<le> energy_weight \<and> energy_weight \<le> 1) then Inl ValueError
      else if \<not> list_all isinstance_str (temperature_variables @ energy_variables)
        then Inl TypeError
      else
        Inr \<lparr>lr_temp_names = temperature_variables,
             lr_energy_names = energy_variables,
             lr_range_comfort_winter = range_comfort_winter,
             lr_range_comfort_summer = range_comfort_summer,
             lr_W_energy = energy_weight,
             lr_lambda_energy = lambda_energy,
             lr_lambda_temp = lambda_temperature,
             lr_summer_start = summer_start,
             lr_summer_final = summer_final\<rparr>)"

section \<open>NuestroReward\<close>

text \<open>
  \<^verbatim>\<open>W_energy\<close> is the one attribute that \<^verbatim>\<open>__call__\<close> reads before writing: it is
  state of the engine, and \<^verbatim>\<open>__call__\<close> returns the engine as it leaves it.
\<close>

record NuestroReward =
  nr_temp_names :: "name list"
  nr_energy_names :: "name list"
  nr_W_energy :: real
  nr_lambda_energy :: real
  nr_lambda_temp :: real
  nr_low_price :: real
  nr_high_price :: real
  nr_schedule :: "schedule option"

text \<open>
  \<^verbatim>\<open>NuestroReward.__init__\<close>. \<open>schedule_csv\<close> is the table read from the file, or None
  when no path is given.
\<close>

definition NuestroReward_init ::
  "name list \<Rightarrow> name list \<Rightarrow> real \<Rightarrow> real \<Rightarrow> real \<Rightarrow> real \<Rightarrow> real \<Rightarrow> schedule option
     \<Rightarrow> error + NuestroReward" where
  "NuestroReward_init temperature_variables energy_variables energy_weight lambda_energy
       lambda_temperature high_price low_price schedule_csv =
     (if \<not> (0 \<le> energy_weight \<and> energy_weight \<le> 1) then Inl ValueError
      else if \<not> list_all isinstance_str (temperature_variables @ energy_variables)
        then Inl TypeError
      else
        Inr \<lparr>nr_temp_names = temperature_variables,
             nr_energy_names = energy_variables,
             nr_W_energy = energy_weight,
             nr_lambda_energy = lambda_energy,
             nr_lambda_temp = lambda_temperature,
             nr_low_price = low_price,
             nr_high_price = high_price,
             nr_schedule = schedule_csv\<rparr>)"

definition nr_get_energy_consumed :: "NuestroReward \<Rightarrow> obs_dict \<Rightarrow> error + real list" where
  "nr_get_energy_consumed self obs_dict = getitems obs_dict (nr_energy_names self)"

text \<open>
  \<^verbatim>\<open>NuestroReward._get_temperature_violation\<close>. The source line is
  \<^verbatim>\<open>violacion = max(-0,5 - (pmv), 0, pmv - 0,5)\<close>: the commas separate five arguments,
  \<^verbatim>\<open>-0\<close>, \<^verbatim>\<open>5 - (pmv)\<close>, \<^verbatim>\<open>0\<close>, \<^verbatim>\<open>pmv - 0\<close> and \<^verbatim>\<open>5\<close>. Indexing
  \<^verbatim>\<open>temp_names\<close> beyond its length raises IndexError.
\<close>

definition nr_get_temperature_violation :: "NuestroReward \<Rightarrow> obs_dict \<Rightarrow> error + real list" where
  "nr_get_temperature_violation self obs_dict =
     (case nr_temp_names self of
        [] \<Rightarrow> Inl IndexError
      | name0 # names \<Rightarrow>
     (case getitem obs_dict name0 of
        Inl e \<Rightarrow> Inl e
      | Inr tdb \<Rightarrow>
     (case names of
        [] \<Rightarrow> Inl IndexError
      | name1 # _ \<Rightarrow>
     (case getitem obs_dict name1 of
        Inl e \<Rightarrow> Inl e
      | Inr rh \<Rightarrow>
     (let pmv = - 7.4928 + 0.2882 * tdb - 0.0020 * rh + 0.0004 * tdb * rh;
          violacion = max (- 0) (max (5 - pmv) (max 0 (max (pmv - 0) 5)))
      in Inr [violacion])))))"

text \<open>
  \<^verbatim>\<open>NuestroReward._get_reward\<close>; the two penalties are the attributes set by
  \<^verbatim>\<open>__call__\<close> just before.
\<close>

definition nr_get_reward :: "NuestroReward \<Rightarrow> real \<Rightarrow> real \<Rightarrow> real \<times> real \<times> real" where
  "nr_get_reward self self_energy_penalty self_comfort_penalty =
     (let energy_term = nr_lambda_energy self * nr_W_energy self * self_energy_penalty;
          comfort_term = nr_lambda_temp self * (1 - nr_W_energy self) * self_comfort_penalty;
          reward = energy_term + comfort_term
      in (reward, energy_term, comfort_term))"

text \<open>
  \<^verbatim>\<open>NuestroReward.__call__\<close>: the result is the engine after the call, the reward and
  the terms. An exception leaves \<^verbatim>\<open>W_energy\<close> as it was, every raise coming before the
  assignment.
\<close>

definition NuestroReward_call ::
  "int \<Rightarrow> NuestroReward \<Rightarrow> obs_dict \<Rightarrow> error + (NuestroReward \<times> real \<times> reward_terms)" where
  "NuestroReward_call YEAR self obs_dict =
     (case getitem obs_dict (Str ''month'') of
        Inl e \<Rightarrow> Inl e
      | Inr obs_month \<Rightarrow>
     (case getitem obs_dict (Str ''day_of_month'') of
        Inl e \<Rightarrow> Inl e
      | Inr obs_day \<Rightarrow>
     (case getitem obs_dict (Str ''hour'') of
        Inl e \<Rightarrow> Inl e
      | Inr obs_hour \<Rightarrow>
     (let month = max 1 (min 12 (py_int obs_month));
          day = max 1 (min 28 (py_int obs_day));
          hour_raw = max 0 (min 23 (py_int obs_hour))
      in
     (case new_datetime YEAR month day hour_raw of
        Inl e \<Rightarrow> Inl e
      | Inr current_dt \<Rightarrow>
     (let wd = weekday current_dt;
          hour = dt_hour current_dt;
          price_kwh =
            (if wd < 5 \<and> (hour \<ge> 17 \<and> hour \<le> 21)
             then nr_high_price self else nr_low_price self)
      in
     (case nr_get_energy_consumed self obs_dict of
        Inl e \<Rightarrow> Inl e
      | Inr energy_values \<Rightarrow>
     (let total_energy = sum_list energy_values;
          energy_penalty = - (total_energy / 1000) * price_kwh
      in
     (case nr_get_temperature_violation self obs_dict of
        Inl e \<Rightarrow> Inl e
      | Inr temp_violations \<Rightarrow>
     (let total_temp_violation = sum_list temp_violations;
          comfort_penalty = - total_temp_violation
      in
     (case (case nr_schedule self of
              None \<Rightarrow> Inr self
            | Some sched \<Rightarrow>
                (case Timestamp YEAR (py_int obs_month) (py_int obs_day) of
                   Inl e \<Rightarrow> Inl e
                 | Inr current_date \<Rightarrow>
                     (let current_hour = py_int obs_hour;
                          row = schedule_rows sched current_date current_hour
                      in if row \<noteq> [] then
                           (let factor = sr_my_factor (hd row)
                            in if factor = 0 then Inr (self\<lparr>nr_W_energy := 1\<rparr>)
                               else Inr self)
                         else Inr self))) of
        Inl e \<Rightarrow> Inl e
      | Inr self' \<Rightarrow>
     (let result = nr_get_reward self' energy_penalty comfort_penalty;
          reward = fst result;
          energy_term = fst (snd result);
          comfort_term = snd (snd result)
      in  Inr (self', reward,
               \<lparr>energy_term = energy_term,
                comfort_term = comfort_term,
                energy_penalty = energy_penalty,
                comfort_penalty = comfort_penalty,
                total_power_demand = total_energy,
                total_temperature_violation = total_temp_violation,
                reward_weight = nr_W_energy self'\<rparr>)))))))))))))"

section \<open>NuestroRewardMultizonaPPO\<close>

record NuestroRewardMultizonaPPO =
  ppo_temp_names :: "name list"
  ppo_hum_names :: "name list"
  ppo_energy_names :: "name list"
  ppo_W_energy :: real
  ppo_lambda_energy :: real
  ppo_lambda_temp :: real
  ppo_precio_punta :: real
  ppo_precio_fuera_punta :: real
  ppo_punta_inicio :: int
  ppo_punta_fin :: int
  ppo_dias_punta :: "int list"
  ppo_schedule :: "schedule option"

text \<open>\<^verbatim>\<open>NuestroRewardMultizonaPPO.__init__\<close>\<close>

definition NuestroRewardMultizonaPPO_init ::
  "name list \<Rightarrow> name list \<Rightarrow> name list \<Rightarrow> real \<Rightarrow> real \<Rightarrow> real \<Rightarrow> tarifa option \<Rightarrow> real \<Rightarrow> real
     \<Rightarrow> schedule option \<Rightarrow> error + NuestroRewardMultizonaPPO" where
  "NuestroRewardMultizonaPPO_init temperature_variables humidity_variables energy_variables
       energy_weight lambda_energy lambda_temperature tarifa_json high_price low_price
       schedule_csv =
     (if \<not> (0 \<le> energy_weight \<and> energy_weight \<le> 1) then Inl ValueError
      else
        (case tarifa_json of
           Some tarifa \<Rightarrow>
             (case dias_lookup (tf_dias_punta tarifa) of
                Inl e \<Rightarrow> Inl e
              | Inr dias \<Rightarrow>
                  Inr \<lparr>ppo_temp_names = temperature_variables,
                       ppo_hum_names = humidity_variables,
                       ppo_energy_names = energy_variables,
                       ppo_W_energy = energy_weight,
                       ppo_lambda_energy = lambda_energy * 5.0,
                       ppo_lambda_temp = lambda_temperature,
                       ppo_precio_punta = tf_punta tarifa,
                       ppo_precio_fuera_punta = tf_fuera_de_punta tarifa,
                       ppo_punta_inicio = tf_punta_inicio tarifa,
                       ppo_punta_fin = tf_punta_fin tarifa,
                       ppo_dias_punta = dias,
                       ppo_schedule = schedule_csv\<rparr>)
         | None \<Rightarrow>
             Inr \<lparr>ppo_temp_names = temperature_variables,
                  ppo_hum_names = humidity_variables,
                  ppo_energy_names = energy_variables,
                  ppo_W_energy = energy_weight,
                  ppo_lambda_energy = lambda_energy * 5.0,
                  ppo_lambda_temp = lambda_temperature,
                  ppo_precio_punta = high_price,
                  ppo_precio_fuera_punta = low_price,
                  ppo_punta_inicio = 17,
                  ppo_punta_fin = 20,
                  ppo_dias_punta = [0, 1, 2, 3, 4],
                  ppo_schedule = schedule_csv\<rparr>))"

text \<open>\<^verbatim>\<open>NuestroRewardMultizonaPPO._calculate_pmv_violation(tdb, rh)\<close>\<close>

definition ppo_calculate_pmv_violation :: "real \<Rightarrow> real \<Rightarrow> real \<times> real" where
  "ppo_calculate_pmv_violation tdb rh =
     (let pmv = - 7.4928 + 0.2882 * tdb - 0.0020 * rh + 0.0004 * tdb * rh;
          d = max (- 0.5 - pmv) 0.0 + max (pmv - 0.5) 0.0;
          violation = d + d * d
      in (pmv, violation))"

fun ppo_zones :: "obs_dict \<Rightarrow> (name \<times> name) list \<Rightarrow> error + (real list \<times> real list)" where
  "ppo_zones obs_dict [] = Inr ([], [])"
| "ppo_zones obs_dict ((temp_var, hum_var) # rest) =
     (case getitem obs_dict temp_var of
        Inl e \<Rightarrow> Inl e
      | Inr tdb \<Rightarrow>
     (case getitem obs_dict hum_var of
        Inl e \<Rightarrow> Inl e
      | Inr rh \<Rightarrow>
     (case ppo_calculate_pmv_violation tdb rh of
        (pmv, violation) \<Rightarrow>
     (case ppo_zones obs_dict rest of
        Inl e \<Rightarrow> Inl e
      | Inr (violations, pmv_values) \<Rightarrow> Inr (violation # violations, pmv # pmv_values)))))"

definition ppo_get_temperature_violation ::
  "NuestroRewardMultizonaPPO \<Rightarrow> obs_dict \<Rightarrow> error + (real list \<times> real list)" where
  "ppo_get_temperature_violation self obs_dict =
     ppo_zones obs_dict (zip (ppo_temp_names self) (ppo_hum_names self))"

definition ppo_get_energy_consumed ::
  "NuestroRewardMultizonaPPO \<Rightarrow> obs_dict \<Rightarrow> error + real list" where
  "ppo_get_energy_consumed self obs_dict = getitems obs_dict (ppo_energy_names self)"

record ppo_reward_terms = reward_terms +
  ppo_comfort_bonus :: real
  ppo_flat_peak_penalty :: real
  ppo_avg_pmv :: real
  ppo_waste_factor :: real
  ppo_is_peak :: bool

text \<open>
  \<^verbatim>\<open>NuestroRewardMultizonaPPO.__call__\<close>; as for NuestroReward, the engine after the
  call is part of the result. A later binding of \<open>energy_penalty\<close> stands for the
  in-place update \<^verbatim>\<open>self.energy_penalty *= ...\<close>.
\<close>

definition NuestroRewardMultizonaPPO_call ::
  "int \<Rightarrow> NuestroRewardMultizonaPPO \<Rightarrow> obs_dict
     \<Rightarrow> error + (NuestroRewardMultizonaPPO \<times> real \<times> ppo_reward_terms)" where
  "NuestroRewardMultizonaPPO_call YEAR self obs_dict =
     (case getitem obs_dict (Str ''month'') of
        Inl e \<Rightarrow> Inl e
      | Inr obs_month \<Rightarrow>
     (case getitem obs_dict (Str ''day_of_month'') of
        Inl e \<Rightarrow> Inl e
      | Inr obs_day \<Rightarrow>
     (case getitem obs_dict (Str ''hour'') of
        Inl e \<Rightarrow> Inl e
      | Inr obs_hour \<Rightarrow>
     (let month = max 1 (min 12 (py_int obs_month));
          day = max 1 (min 28 (py_int obs_day));
          hour_raw = max 0 (min 23 (py_int obs_hour))
      in
     (case new_datetime YEAR month day hour_raw of
        Inl e \<Rightarrow> Inl e
      | Inr current_dt \<Rightarrow>
     (let wd = weekday current_dt;
          hour = dt_hour current_dt;
          is_peak = (wd \<in> set (ppo_dias_punta self)
                      \<and> ppo_punta_inicio self \<le> hour \<and> hour \<le> ppo_punta_fin self);
          price_kwh = (if is_peak then ppo_precio_punta self else ppo_precio_fuera_punta self)
      in
     (case ppo_get_energy_consumed self obs_dict of
        Inl e \<Rightarrow> Inl e
      | Inr energy_values \<Rightarrow>
     (let total_energy = sum_list energy_values;
          energy_penalty = - (total_energy / 1000) * price_kwh;
          energy_penalty = (if is_peak then energy_penalty * 15.0 else energy_penalty);
          flat_peak_penalty = (if is_peak \<and> total_energy > 0 then - 500.0 else 0.0)
      in
     (case ppo_get_temperature_violation self obs_dict of
        Inl e \<Rightarrow> Inl e
      | Inr (temp_violations, pmv_values) \<Rightarrow>
     (let total_temp_violation = sum_list temp_violations;
          comfort_penalty = - total_temp_violation;
          avg_pmv = sum_list pmv_values / real (max (length pmv_values) 1);
          wasting = (total_energy > 0 \<and> avg_pmv > - 0.5);
          excess = avg_pmv + 0.5;
          waste_factor = (if wasting then 1.0 + 150.0 * excess\<^sup>2 else 1.0);
          energy_penalty = (if wasting then energy_penalty * waste_factor else energy_penalty)
      in
     (case (case ppo_schedule self of
              None \<Rightarrow> Inr self
            | Some sched \<Rightarrow>
                (case Timestamp YEAR (py_int obs_month) (py_int obs_day) of
                   Inl e \<Rightarrow> Inl e
                 | Inr current_date \<Rightarrow>
                     (let current_hour = py_int obs_hour;
                          row = schedule_rows sched current_date current_hour
                      in if row \<noteq> [] then
                           (let factor = sr_my_factor (hd row)
                            in if factor = 0 then Inr (self\<lparr>ppo_W_energy := 1\<rparr>)
                               else Inr self)
                         else Inr self))) of
        Inl e \<Rightarrow> Inl e
      | Inr self' \<Rightarrow>
     (let zones_in_comfort = length (filter (\<lambda>pmv. - 0.5 \<le> pmv \<and> pmv \<le> 0.5) pmv_values);
          comfort_bonus =
            (if zones_in_comfort \<ge> 2 then 40.0
             else if zones_in_comfort = 1 then 8.0
             else 0.0);
          energy_term = ppo_lambda_energy self' * ppo_W_energy self' * energy_penalty;
          comfort_term = ppo_lambda_temp self' * (1 - ppo_W_energy self') * comfort_penalty;
          reward = energy_term + comfort_term + comfort_bonus + flat_peak_penalty
      in  Inr (self', reward,
               \<lparr>energy_term = energy_term,
                comfort_term = comfort_term,
                energy_penalty = energy_penalty,
                comfort_penalty = comfort_penalty,
                total_power_demand = total_energy,
                total_temperature_violation = total_temp_violation,
                reward_weight = ppo_W_energy self',
                ppo_comfort_bonus = comfort_bonus,
                ppo_flat_peak_penalty = flat_peak_penalty,
                ppo_avg_pmv = avg_pmv,
                ppo_waste_factor = waste_factor,
                ppo_is_peak = is_peak\<rparr>)))))))))))))"

section \<open>PyEnvProduction: the observation read from the REST API\<close>

text \<open>
  \<^verbatim>\<open>self.api_config\<close> is a dictionary read with \<^verbatim>\<open>.get(key, default)\<close>: a field is
  None when the key is absent.
\<close>

record api_config =
  observation_endpoint :: "string option"
  field_mapping :: "(string \<rightharpoonup> string) option"

record PyEnvProduction =
  variable_names :: "string list"
  api_config :: api_config

text \<open>
  The result of \<^verbatim>\<open>_get_observation_api\<close> is either the vector built from the response
  or the return value of \<^verbatim>\<open>_get_observation_simulated()\<close>, which draws random numbers
  and reads the clock and is left opaque. The conversion to float32 is not modelled.
\<close>

datatype observation = Values "real list" | Simulated

text \<open>
  The loop over \<^verbatim>\<open>self.variable_names\<close>, \<open>values\<close> being the list built so far. The
  response \<open>data\<close> is a JSON object with values of some type \<open>'v\<close>; \<open>py_float\<close> is
  Python's \<^verbatim>\<open>float()\<close> on such a value, None when it raises. The result None is an
  exception leaving the loop.
\<close>

fun api_values ::
  "('v \<Rightarrow> real option) \<Rightarrow> api_config \<Rightarrow> (string \<rightharpoonup> 'v) \<Rightarrow> string list \<Rightarrow> real list
     \<Rightarrow> real list option" where
  "api_values py_float config data [] values = Some values"
| "api_values py_float config data (var_name # rest) values =
     (case data var_name of
        Some x \<Rightarrow>
          (case py_float x of
             None \<Rightarrow> None
           | Some v \<Rightarrow> api_values py_float config data rest (values @ [v]))
      | None \<Rightarrow>
          (let mapping = (case field_mapping config of None \<Rightarrow> Map.empty | Some m \<Rightarrow> m)
           in case mapping var_name of
                Some mapped_field \<Rightarrow>
                  (case data mapped_field of
                     Some x \<Rightarrow>
                       (case py_float x of
                          None \<Rightarrow> None
                        | Some v \<Rightarrow> api_values py_float config data rest (values @ [v]))
                   | None \<Rightarrow> api_values py_float config data rest (values @ [0.0]))
              | None \<Rightarrow> api_values py_float config data rest (values @ [0.0])))"

text \<open>
  \<^verbatim>\<open>PyEnvProduction._get_observation_api\<close>. \<open>response\<close> is what
  \<^verbatim>\<open>requests.get(endpoint, timeout=5).json()\<close> returns, a JSON object, or None when the
  request or the decoding raises; every exception inside \<^verbatim>\<open>try\<close> ends in the
  simulated observation.
\<close>

definition get_observation_api ::
  "('v \<Rightarrow> real option) \<Rightarrow> PyEnvProduction \<Rightarrow> (string \<rightharpoonup> 'v) option \<Rightarrow> observation" where
  "get_observation_api py_float self response =
     (let endpoint = (case observation_endpoint (api_config self) of None \<Rightarrow> '''' | Some s \<Rightarrow> s)
      in if endpoint = '''' then Simulated
         else
           (case response of
              None \<Rightarrow> Simulated
            | Some data \<Rightarrow>
                (case api_values py_float (api_config self) data (variable_names self) [] of
                   None \<Rightarrow> Simulated
                 | Some values \<Rightarrow> Values values)))"

section \<open>Example configurations\<close>

text \<open>
  A one-zone engine with the tariff peak 10, off-peak 4, window 17 to 20 on Monday to
  Friday, and an observation of a January day with the zone at 22 degrees and 45 percent.
  With the reference year 2024, January 15 is a Monday and January 20 a Saturday.
\<close>

definition scenario_engine :: NuestroRewardMultizona where
  "scenario_engine =
     \<lparr>mz_temp_names = [Str ''east_temp''],
      mz_hum_names = [Str ''east_rh''],
      mz_energy_names = [Str ''heat_pump_power''],
      mz_W_energy = 0.5, mz_lambda_energy = 1, mz_lambda_temp = 30,
      mz_precio_punta = 10, mz_precio_fuera_punta = 4,
      mz_punta_inicio = 17, mz_punta_fin = 20, mz_dias_punta = [0, 1, 2, 3, 4]\<rparr>"

definition scenario_obs :: "real \<Rightarrow> real \<Rightarrow> real \<Rightarrow> obs_dict" where
  "scenario_obs day hour watts =
     [Str ''month'' \<mapsto> 1, Str ''day_of_month'' \<mapsto> day, Str ''hour'' \<mapsto> hour,
      Str ''east_temp'' \<mapsto> 22.0, Str ''east_rh'' \<mapsto> 45.0, Str ''heat_pump_power'' \<mapsto> watts]"

text \<open>
  A presence schedule for Monday January 15: nobody at 18 h (factor 0), somebody at 19 h
  (factor 1); and the two engines that read it, both configured with the weight 0.5.
\<close>

definition presence_schedule :: schedule where
  "presence_schedule =
     [\<lparr>sr_date = \<lparr>dt_year = 2024, dt_month = 1, dt_day = 15, dt_hour = 0\<rparr>,
       sr_hour = 18, sr_my_factor = 0\<rparr>,
      \<lparr>sr_date = \<lparr>dt_year = 2024, dt_month = 1, dt_day = 15, dt_hour = 0\<rparr>,
       sr_hour = 19, sr_my_factor = 1\<rparr>]"

definition presence_engine :: NuestroReward where
  "presence_engine =
     \<lparr>nr_temp_names = [Str ''east_temp'', Str ''east_rh''],
      nr_energy_names = [Str ''heat_pump_power''],
      nr_W_energy = 0.5, nr_lambda_energy = 1, nr_lambda_temp = 30,
      nr_low_price = 4, nr_high_price = 10,
      nr_schedule = Some presence_schedule\<rparr>"

definition presence_engine_ppo :: NuestroRewardMultizonaPPO where
  "presence_engine_ppo =
     \<lparr>ppo_temp_names = [Str ''east_temp''],
      ppo_hum_names = [Str ''east_rh''],
      ppo_energy_names = [Str ''heat_pump_power''],
      ppo_W_energy = 0.5, ppo_lambda_energy = 5, ppo_lambda_temp = 30,
      ppo_precio_punta = 10, ppo_precio_fuera_punta = 4,
      ppo_punta_inicio = 17, ppo_punta_fin = 20, ppo_dias_punta = [0, 1, 2, 3, 4],
      ppo_schedule = Some presence_schedule\<rparr>"

text \<open>
  A hot zone with the heat pump off: Monday January 15 at noon, 28 degrees and 46
  percent (index 1.0), no power drawn.
\<close>

definition hot_idle_obs :: obs_dict where
  "hot_idle_obs =
     [Str ''month'' \<mapsto> 1, Str ''day_of_month'' \<mapsto> 15, Str ''hour'' \<mapsto> 12,
      Str ''east_temp'' \<mapsto> 28.0, Str ''east_rh'' \<mapsto> 46.0, Str ''heat_pump_power'' \<mapsto> 0.0]"

text \<open>
  An observation of a zone inside the comfort band: at 25 degrees and 50 percent the
  index is 0.1122.
\<close>

definition comfortable_obs :: obs_dict where
  "comfortable_obs = [Str ''east_temp'' \<mapsto> 25, Str ''east_rh'' \<mapsto> 50]"

text \<open>
  A production environment with three variables and a response that holds only the
  first, the second being mapped to a field the response lacks and the third unmapped.
\<close>

definition production_env :: PyEnvProduction where
  "production_env =
     \<lparr>variable_names = [''east_temp'', ''east_rh'', ''heat_pump_power''],
      api_config =
        \<lparr>observation_endpoint = Some ''http://localhost/obs'',
         field_mapping = Some [''east_rh'' \<mapsto> ''humidity'']\<rparr>\<rparr>"

definition production_response :: "string \<rightharpoonup> real" where
  "production_response = [''east_temp'' \<mapsto> 21.5]"

text \<open>
  A response whose one field is the JSON null. Its values are \<open>real option\<close>, None
  being null, and \<^verbatim>\<open>float()\<close> on them is the identity: it raises on null.
\<close>

definition null_response :: "string \<rightharpoonup> real option" where
  "null_response = [''east_temp'' \<mapsto> None]"

section \<open>Auxiliary facts\<close>

lemmas calendar_defs = new_datetime_def weekday_def ymd2ord_def days_before_year_def
  days_before_month_def days_in_month_def is_leap_def py_int_def Timestamp_def

lemmas mz_call_defs = NuestroRewardMultizona_call_def mz_get_energy_consumed_def
  mz_get_temperature_violation_def mz_calculate_pmv_violation_def getitem_def

lemma getitems_present:
  "set vs \<subseteq> dom obs \<Longrightarrow> getitems obs vs = Inr (map (\<lambda>v. the (obs v)) vs)"
  by (induction vs) (auto simp: getitem_def)

lemma mz_zones_present:
  "fst ` set zs \<subseteq> dom obs \<Longrightarrow> snd ` set zs \<subseteq> dom obs \<Longrightarrow>
   mz_zones obs e zs =
     Inr (map (\<lambda>(t, h). snd (mz_calculate_pmv_violation (the (obs t)) (the (obs h)) e)) zs,
          map (\<lambda>(t, h). fst (mz_calculate_pmv_violation (the (obs t)) (the (obs h)) e)) zs)"
  by (induction zs) (auto simp: getitem_def split: prod.splits)

lemma days_in_month_ge_28:
  assumes "1 \<le> m" "m \<le> 12"
  shows "28 \<le> days_in_month y m"
proof -
  from assms have "m \<in> {1, 2, 3, 4, 5, 6, 7, 8, 9, 10, 11, 12}" by (simp; arith)
  then show ?thesis by (auto simp: days_in_month_def)
qed

lemma new_datetime_clamped:
  assumes "1 \<le> YEAR" "YEAR \<le> 9999"
  shows "new_datetime YEAR (max 1 (min 12 a)) (max 1 (min 28 b)) (max 0 (min 23 c)) =
    Inr \<lparr>dt_year = YEAR, dt_month = max 1 (min 12 a), dt_day = max 1 (min 28 b),
         dt_hour = max 0 (min 23 c)\<rparr>"
proof -
  have "28 \<le> days_in_month YEAR (max 1 (min 12 a))"
    by (rule days_in_month_ge_28) auto
  then have "max 1 (min 28 b) \<le> days_in_month YEAR (max 1 (min 12 a))" by auto
  then show ?thesis using assms by (auto simp: new_datetime_def)
qed

text \<open>The example engine on Monday January 15, 2024 at 18 h, the heat pump drawing 2000 W.\<close>

lemma scenario_monday_18:
  "NuestroRewardMultizona_call 2024 scenario_engine (scenario_obs 15 18 2000) =
     Inr (- 16.9958944,
          \<lparr>energy_term = - 10, comfort_term = - 6.9958944, energy_penalty = - 20,
           comfort_penalty = - 0.46639296, total_power_demand = 2000,
           total_temperature_violation = 0.46639296, reward_weight = 0.5,
           mz_avg_pmv = - 0.8464, mz_price_kwh = 10\<rparr>)"
  by (simp add: mz_call_defs scenario_engine_def scenario_obs_def calendar_defs Let_def)

lemma scenario_saturday_18:
  "NuestroRewardMultizona_call 2024 scenario_engine (scenario_obs 20 18 2000) =
     Inr (- 10.9958944,
          \<lparr>energy_term = - 4, comfort_term = - 6.9958944, energy_penalty = - 8,
           comfort_penalty = - 0.46639296, total_power_demand = 2000,
           total_temperature_violation = 0.46639296, reward_weight = 0.5,
           mz_avg_pmv = - 0.8464, mz_price_kwh = 4\<rparr>)"
  by (simp add: mz_call_defs scenario_engine_def scenario_obs_def calendar_defs Let_def)

lemma scenario_monday_16:
  "NuestroRewardMultizona_call 2024 scenario_engine (scenario_obs 15 16 2000) =
     Inr (- 10.9958944,
          \<lparr>energy_term = - 4, comfort_term = - 6.9958944, energy_penalty = - 8,
           comfort_penalty = - 0.46639296, total_power_demand = 2000,
           total_temperature_violation = 0.46639296, reward_weight = 0.5,
           mz_avg_pmv = - 0.8464, mz_price_kwh = 4\<rparr>)"
  by (simp add: mz_call_defs scenario_engine_def scenario_obs_def calendar_defs Let_def)

lemma scenario_weekdays:
  "weekday \<lparr>dt_year = 2024, dt_month = 1, dt_day = 15, dt_hour = h\<rparr> = 0"
  "weekday \<lparr>dt_year = 2024, dt_month = 1, dt_day = 20, dt_hour = h\<rparr> = 5"
  by (simp_all add: calendar_defs)

section \<open>The thermal-sensation index and the comfort violation\<close>

text \<open>
  Claim C4. For every temperature and relative humidity, the index computed by
  NuestroRewardMultizona and by NuestroRewardMultizonaPPO is
  \<open>-7.4928 + 0.2882 T - 0.0020 RH + 0.0004 T RH\<close>.
\<close>

theorem pmv_formula:
  "fst (mz_calculate_pmv_violation T RH total_energy) =
     - 7.4928 + 0.2882 * T - 0.0020 * RH + 0.0004 * T * RH
   \<and> fst (ppo_calculate_pmv_violation T RH) =
     - 7.4928 + 0.2882 * T - 0.0020 * RH + 0.0004 * T * RH"
  by (simp add: mz_calculate_pmv_violation_def ppo_calculate_pmv_violation_def Let_def)

theorem pmv_formula_witness:
  "fst (mz_calculate_pmv_violation 25.0 50.0 0) =
     - 7.4928 + 0.2882 * 25.0 - 0.0020 * 50.0 + 0.0004 * 25.0 * 50.0
   \<and> fst (ppo_calculate_pmv_violation 25.0 50.0) =
     - 7.4928 + 0.2882 * 25.0 - 0.0020 * 50.0 + 0.0004 * 25.0 * 50.0"
  using pmv_formula [of "25.0" "50.0" 0] by simp

text \<open>
  Claim C5. With \<open>d = max (-0.5 - PMV) 0 + max (PMV - 0.5) 0\<close> the violation of a zone is
  \<open>d + d\<^sup>2\<close>; it is 0 exactly when the index lies in the band from -0.5 to 0.5, it is
  2 at the index -1.5 and 1.44 at the index 1.3.
\<close>

theorem symmetric_violation:
  assumes "mz_calculate_pmv_violation tdb rh total_energy = (pmv, violation)"
  shows "violation = (max (- 0.5 - pmv) 0 + max (pmv - 0.5) 0)
                       + (max (- 0.5 - pmv) 0 + max (pmv - 0.5) 0)\<^sup>2
    \<and> (violation = 0 \<longleftrightarrow> - 0.5 \<le> pmv \<and> pmv \<le> 0.5)
    \<and> (pmv = - 1.5 \<longrightarrow> violation = 2.0)
    \<and> (pmv = 1.3 \<longrightarrow> violation = 0.8 + 0.64 \<and> violation = 1.44)"
proof -
  define d where "d = max (- 0.5 - pmv) 0 + max (pmv - 0.5) 0"
  have v: "violation = d + d * d"
    using assms by (auto simp: mz_calculate_pmv_violation_def Let_def d_def)
  have d0: "0 \<le> d" by (simp add: d_def)
  have "violation = 0 \<longleftrightarrow> d = 0"
  proof
    assume "violation = 0"
    then have "d * (1 + d) = 0" using v by (simp add: algebra_simps)
    then show "d = 0" using d0 by auto
  qed (simp add: v)
  moreover have "d = 0 \<longleftrightarrow> - 0.5 \<le> pmv \<and> pmv \<le> 0.5"
    unfolding d_def by (auto simp: max_def split: if_splits)
  moreover have "violation = 2.0" if "pmv = - 1.5"
  proof -
    have d: "d = 1" using that by (simp add: d_def)
    show ?thesis unfolding v d by simp
  qed
  moreover have "violation = 0.8 + 0.64 \<and> violation = 1.44" if "pmv = 1.3"
  proof -
    have d: "d = 4 / 5" using that by (simp add: d_def)
    show ?thesis unfolding v d by simp
  qed
  ultimately show ?thesis
    using v by (simp add: d_def power2_eq_square)
qed

text \<open>
  The index is -1.5 at 20.625 degrees and 7.788 percent, 1.3 at 30 degrees and 14.68
  percent, and inside the band at 25 degrees and 50 percent.
\<close>

theorem symmetric_violation_witness:
  "mz_calculate_pmv_violation 20.625 7.788 0 = (- 1.5, 2.0)
   \<and> mz_calculate_pmv_violation 30 14.68 0 = (1.3, 1.44)
   \<and> mz_calculate_pmv_violation 25 50 0 = (0.1122, 0)"
proof -
  have a: "mz_calculate_pmv_violation 20.625 7.788 0 =
             (- 1.5, snd (mz_calculate_pmv_violation 20.625 7.788 0))"
    by (simp add: mz_calculate_pmv_violation_def Let_def)
  have b: "mz_calculate_pmv_violation 30 14.68 0 =
             (1.3, snd (mz_calculate_pmv_violation 30 14.68 0))"
    by (simp add: mz_calculate_pmv_violation_def Let_def)
  have c: "mz_calculate_pmv_violation 25 50 0 =
             (0.1122, snd (mz_calculate_pmv_violation 25 50 0))"
    by (simp add: mz_calculate_pmv_violation_def Let_def)
  have "snd (mz_calculate_pmv_violation 20.625 7.788 0) = 2.0"
    using symmetric_violation [OF a] by simp
  moreover have "snd (mz_calculate_pmv_violation 30 14.68 0) = 1.44"
    using symmetric_violation [OF b] by simp
  moreover have "snd (mz_calculate_pmv_violation 25 50 0) = 0"
    using symmetric_violation [OF c] by simp
  ultimately show ?thesis using a b c by (simp add: prod_eq_iff)
qed

text \<open>
  Claim C1. The docstring of \<^verbatim>\<open>_calculate_pmv_violation\<close> and the comment in
  \<^verbatim>\<open>__call__\<close> promise no penalty on the hot side when the total energy is 0. The
  code at 28 degrees and 46 percent (index 1.0) with the total energy 0 returns the
  violation 0.75, the same as with the energy 2000; and the evaluation of the hot zone
  with the heat pump off reports the total violation 0.75 beside the total power 0.
\<close>

theorem hot_side_not_gated:
  "mz_calculate_pmv_violation 28.0 46.0 0.0 = (1.0, 0.75)
   \<and> mz_calculate_pmv_violation 28.0 46.0 2000.0 = (1.0, 0.75)
   \<and> NuestroRewardMultizona_call 2024 scenario_engine hot_idle_obs =
       Inr (- 11.25,
            \<lparr>energy_term = 0, comfort_term = - 11.25, energy_penalty = 0,
             comfort_penalty = - 0.75, total_power_demand = 0,
             total_temperature_violation = 0.75, reward_weight = 0.5,
             mz_avg_pmv = 1.0, mz_price_kwh = 4\<rparr>)"
  by (simp add: mz_call_defs scenario_engine_def hot_idle_obs_def calendar_defs Let_def)

text \<open>
  What a successful evaluation of NuestroRewardMultizona has computed on the way.
\<close>

lemma mz_call_success:
  assumes call: "NuestroRewardMultizona_call YEAR self obs = Inr (reward, terms)"
    and obs: "obs (Str ''month'') = Some obs_month"
             "obs (Str ''day_of_month'') = Some obs_day"
             "obs (Str ''hour'') = Some obs_hour"
  obtains energy_values temp_violations pmv_values where
    "getitems obs (mz_energy_names self) = Inr energy_values"
    "mz_zones obs (sum_list energy_values) (zip (mz_temp_names self) (mz_hum_names self))
       = Inr (temp_violations, pmv_values)"
    "mz_price_kwh terms =
       (if weekday \<lparr>dt_year = YEAR,
                    dt_month = max 1 (min 12 (py_int obs_month)),
                    dt_day = max 1 (min 28 (py_int obs_day)),
                    dt_hour = max 0 (min 23 (py_int obs_hour))\<rparr> \<in> set (mz_dias_punta self)
           \<and> mz_punta_inicio self \<le> max 0 (min 23 (py_int obs_hour))
           \<and> max 0 (min 23 (py_int obs_hour)) \<le> mz_punta_fin self
        then mz_precio_punta self else mz_precio_fuera_punta self)"
    "total_power_demand terms = sum_list energy_values"
    "energy_penalty terms = - (sum_list energy_values / 1000) * mz_price_kwh terms"
proof -
  define m where "m = max 1 (min 12 (py_int obs_month))"
  define d where "d = max 1 (min 28 (py_int obs_day))"
  define h where "h = max 0 (min 23 (py_int obs_hour))"
  note head = NuestroRewardMultizona_call_def getitem_def obs Let_def
    m_def [symmetric] d_def [symmetric] h_def [symmetric]
  from call obtain dt where dt: "new_datetime YEAR m d h = Inr dt"
    by (cases "new_datetime YEAR m d h") (simp_all add: head)
  then have dt_eq: "dt = \<lparr>dt_year = YEAR, dt_month = m, dt_day = d, dt_hour = h\<rparr>"
    by (simp add: new_datetime_def split: if_splits)
  from call dt obtain ev where ev: "mz_get_energy_consumed self obs = Inr ev"
    by (cases "mz_get_energy_consumed self obs") (simp_all add: head)
  from call dt ev obtain tv pv where
    tv: "mz_get_temperature_violation self obs (sum_list ev) = Inr (tv, pv)"
    by (cases "mz_get_temperature_violation self obs (sum_list ev)") (auto simp add: head)
  have fields: "mz_price_kwh terms =
       (if weekday dt \<in> set (mz_dias_punta self)
           \<and> mz_punta_inicio self \<le> dt_hour dt \<and> dt_hour dt \<le> mz_punta_fin self
        then mz_precio_punta self else mz_precio_fuera_punta self)"
    "total_power_demand terms = sum_list ev"
    "energy_penalty terms = - (sum_list ev / 1000) * mz_price_kwh terms"
    using call by (auto simp add: head dt ev tv)
  have "getitems obs (mz_energy_names self) = Inr ev"
    using ev by (simp add: mz_get_energy_consumed_def)
  moreover have "mz_zones obs (sum_list ev) (zip (mz_temp_names self) (mz_hum_names self))
       = Inr (tv, pv)"
    using tv by (simp add: mz_get_temperature_violation_def)
  moreover have "mz_price_kwh terms =
       (if weekday \<lparr>dt_year = YEAR,
                    dt_month = max 1 (min 12 (py_int obs_month)),
                    dt_day = max 1 (min 28 (py_int obs_day)),
                    dt_hour = max 0 (min 23 (py_int obs_hour))\<rparr> \<in> set (mz_dias_punta self)
           \<and> mz_punta_inicio self \<le> max 0 (min 23 (py_int obs_hour))
           \<and> max 0 (min 23 (py_int obs_hour)) \<le> mz_punta_fin self
        then mz_precio_punta self else mz_precio_fuera_punta self)"
    using fields(1) unfolding dt_eq m_def d_def h_def by simp
  moreover note fields(2) fields(3)
  ultimately show ?thesis by (rule that)
qed

section \<open>The tariff and the weighted reward of NuestroRewardMultizona\<close>

text \<open>
  Claim C2. Whenever NuestroRewardMultizona evaluates an observation, the price applied
  to the energy term is the peak price exactly when the weekday of the clamped date is
  among the peak days and the clamped hour lies between \<open>punta_inicio\<close> and
  \<open>punta_fin\<close>, both included, and the off-peak price otherwise. With the window 17 to
  20 on Monday to Friday: Monday at 18 h is peak, Saturday at 18 h and Monday at 16 h are
  off-peak.
\<close>

theorem tariff_selection:
  assumes call: "NuestroRewardMultizona_call YEAR self obs = Inr (reward, terms)"
    and obs: "obs (Str ''month'') = Some obs_month"
             "obs (Str ''day_of_month'') = Some obs_day"
             "obs (Str ''hour'') = Some obs_hour"
    and wd: "wd = weekday \<lparr>dt_year = YEAR,
                           dt_month = max 1 (min 12 (py_int obs_month)),
                           dt_day = max 1 (min 28 (py_int obs_day)),
                           dt_hour = max 0 (min 23 (py_int obs_hour))\<rparr>"
    and hour: "hour = max 0 (min 23 (py_int obs_hour))"
  shows "mz_price_kwh terms =
           (if wd \<in> set (mz_dias_punta self)
               \<and> mz_punta_inicio self \<le> hour \<and> hour \<le> mz_punta_fin self
            then mz_precio_punta self else mz_precio_fuera_punta self)
    \<and> energy_penalty terms = - (total_power_demand terms / 1000) * mz_price_kwh terms
    \<and> (mz_punta_inicio self = 17 \<and> mz_punta_fin self = 20
          \<and> mz_dias_punta self = [0, 1, 2, 3, 4] \<longrightarrow>
         (wd = 0 \<and> hour = 18 \<longrightarrow> mz_price_kwh terms = mz_precio_punta self)
       \<and> (wd = 5 \<and> hour = 18 \<longrightarrow> mz_price_kwh terms = mz_precio_fuera_punta self)
       \<and> (wd = 0 \<and> hour = 16 \<longrightarrow> mz_price_kwh terms = mz_precio_fuera_punta self))"
proof -
  from call obs obtain energy_values temp_violations pmv_values where
    price: "mz_price_kwh terms =
       (if weekday \<lparr>dt_year = YEAR,
                    dt_month = max 1 (min 12 (py_int obs_month)),
                    dt_day = max 1 (min 28 (py_int obs_day)),
                    dt_hour = max 0 (min 23 (py_int obs_hour))\<rparr> \<in> set (mz_dias_punta self)
           \<and> mz_punta_inicio self \<le> max 0 (min 23 (py_int obs_hour))
           \<and> max 0 (min 23 (py_int obs_hour)) \<le> mz_punta_fin self
        then mz_precio_punta self else mz_precio_fuera_punta self)"
    and total: "total_power_demand terms = sum_list energy_values"
    and penalty: "energy_penalty terms = - (sum_list energy_values / 1000) * mz_price_kwh terms"
    by (rule mz_call_success)
  have 1: "mz_price_kwh terms =
           (if wd \<in> set (mz_dias_punta self)
               \<and> mz_punta_inicio self \<le> hour \<and> hour \<le> mz_punta_fin self
            then mz_precio_punta self else mz_precio_fuera_punta self)"
    unfolding wd hour by (rule price)
  have 2: "energy_penalty terms = - (total_power_demand terms / 1000) * mz_price_kwh terms"
    unfolding total by (rule penalty)
  have 3: "mz_price_kwh terms = mz_precio_punta self"
    if "mz_punta_inicio self = 17" "mz_punta_fin self = 20"
       "mz_dias_punta self = [0, 1, 2, 3, 4]" "wd = 0" "hour = 18"
    unfolding 1 using that by simp
  have 4: "mz_price_kwh terms = mz_precio_fuera_punta self"
    if "mz_punta_inicio self = 17" "mz_punta_fin self = 20"
       "mz_dias_punta self = [0, 1, 2, 3, 4]" "wd = 5" "hour = 18"
    unfolding 1 using that by simp
  have 5: "mz_price_kwh terms = mz_precio_fuera_punta self"
    if "mz_punta_inicio self = 17" "mz_punta_fin self = 20"
       "mz_dias_punta self = [0, 1, 2, 3, 4]" "wd = 0" "hour = 16"
    unfolding 1 using that by simp
  from 1 2 3 4 5 show ?thesis by blast
qed

theorem tariff_selection_witness:
  "mz_price_kwh (snd (projr (NuestroRewardMultizona_call 2024 scenario_engine
                               (scenario_obs 15 18 2000)))) = 10
   \<and> mz_price_kwh (snd (projr (NuestroRewardMultizona_call 2024 scenario_engine
                               (scenario_obs 20 18 2000)))) = 4
   \<and> mz_price_kwh (snd (projr (NuestroRewardMultizona_call 2024 scenario_engine
                               (scenario_obs 15 16 2000)))) = 4"
proof -
  have eng: "mz_punta_inicio scenario_engine = 17" "mz_punta_fin scenario_engine = 20"
    "mz_dias_punta scenario_engine = [0, 1, 2, 3, 4]"
    "mz_precio_punta scenario_engine = 10" "mz_precio_fuera_punta scenario_engine = 4"
    by (simp_all add: scenario_engine_def)
  have obs: "scenario_obs d h w (Str ''month'') = Some 1"
    "scenario_obs d h w (Str ''day_of_month'') = Some d"
    "scenario_obs d h w (Str ''hour'') = Some h" for d h w
    by (simp_all add: scenario_obs_def)
  have "mz_price_kwh (snd (projr (NuestroRewardMultizona_call 2024 scenario_engine
                               (scenario_obs 15 18 2000)))) = 10"
    using tariff_selection [OF scenario_monday_18 obs refl refl] eng
    by (simp add: py_int_def scenario_weekdays scenario_monday_18)
  moreover have "mz_price_kwh (snd (projr (NuestroRewardMultizona_call 2024 scenario_engine
                               (scenario_obs 20 18 2000)))) = 4"
    using tariff_selection [OF scenario_saturday_18 obs refl refl] eng
    by (simp add: py_int_def scenario_weekdays scenario_saturday_18)
  moreover have "mz_price_kwh (snd (projr (NuestroRewardMultizona_call 2024 scenario_engine
                               (scenario_obs 15 16 2000)))) = 4"
    using tariff_selection [OF scenario_monday_16 obs refl refl] eng
    by (simp add: py_int_def scenario_weekdays scenario_monday_16)
  ultimately show ?thesis by simp
qed

text \<open>
  Claim C3. For a valid reference year and an observation that holds the calendar keys
  and every configured name, the evaluation returns, and the reward is the energy term
  plus the comfort term, the energy term being \<open>lambda_energy * W * energy_penalty\<close>, the
  comfort term \<open>lambda_temperature * (1 - W) * (- total_violation)\<close>, and the energy
  penalty minus the sum of the energy readings over 1000 times the price applied.
\<close>

theorem weighted_reward:
  assumes year: "1 \<le> YEAR" "YEAR \<le> 9999"
    and keys: "{Str ''month'', Str ''day_of_month'', Str ''hour''}
                 \<union> set (mz_energy_names self) \<union> set (mz_temp_names self)
                 \<union> set (mz_hum_names self) \<subseteq> dom obs"
  shows "\<exists>reward terms.
      NuestroRewardMultizona_call YEAR self obs = Inr (reward, terms)
    \<and> reward = energy_term terms + comfort_term terms
    \<and> energy_term terms = mz_lambda_energy self * mz_W_energy self * energy_penalty terms
    \<and> comfort_term terms =
        mz_lambda_temp self * (1 - mz_W_energy self) * (- total_temperature_violation terms)
    \<and> energy_penalty terms =
        - ((\<Sum>v\<leftarrow>mz_energy_names self. the (obs v)) / 1000) * mz_price_kwh terms
    \<and> total_temperature_violation terms =
        (\<Sum>(t, h)\<leftarrow>zip (mz_temp_names self) (mz_hum_names self).
           snd (mz_calculate_pmv_violation (the (obs t)) (the (obs h))
                  (\<Sum>v\<leftarrow>mz_energy_names self. the (obs v))))"
proof -
  from keys obtain obs_month obs_day obs_hour where cal:
    "obs (Str ''month'') = Some obs_month" "obs (Str ''day_of_month'') = Some obs_day"
    "obs (Str ''hour'') = Some obs_hour"
    by auto
  have energy: "getitems obs (mz_energy_names self) =
                  Inr (map (\<lambda>v. the (obs v)) (mz_energy_names self))"
    using keys by (intro getitems_present) auto
  have "fst ` set (zip (mz_temp_names self) (mz_hum_names self)) \<subseteq> set (mz_temp_names self)"
    "snd ` set (zip (mz_temp_names self) (mz_hum_names self)) \<subseteq> set (mz_hum_names self)"
    by (auto dest: set_zip_leftD set_zip_rightD)
  then have zones: "mz_zones obs e (zip (mz_temp_names self) (mz_hum_names self)) =
     Inr (map (\<lambda>(t, h). snd (mz_calculate_pmv_violation (the (obs t)) (the (obs h)) e))
            (zip (mz_temp_names self) (mz_hum_names self)),
          map (\<lambda>(t, h). fst (mz_calculate_pmv_violation (the (obs t)) (the (obs h)) e))
            (zip (mz_temp_names self) (mz_hum_names self)))" for e
    using keys by (intro mz_zones_present) auto
  show ?thesis
    by (simp add: NuestroRewardMultizona_call_def getitem_def cal
        new_datetime_clamped [OF year] mz_get_energy_consumed_def energy
        mz_get_temperature_violation_def zones Let_def)
qed

theorem weighted_reward_witness:
  "(1::int) \<le> 2024 \<and> (2024::int) \<le> 9999
   \<and> {Str ''month'', Str ''day_of_month'', Str ''hour''}
        \<union> set (mz_energy_names scenario_engine) \<union> set (mz_temp_names scenario_engine)
        \<union> set (mz_hum_names scenario_engine) \<subseteq> dom (scenario_obs 15 18 2000)
   \<and> (\<exists>reward terms.
        NuestroRewardMultizona_call 2024 scenario_engine (scenario_obs 15 18 2000)
          = Inr (reward, terms)
      \<and> reward = energy_term terms + comfort_term terms
      \<and> energy_term terms = 1 * 0.5 * energy_penalty terms
      \<and> comfort_term terms = 30 * (1 - 0.5) * (- total_temperature_violation terms)
      \<and> energy_penalty terms = - (2000 / 1000) * mz_price_kwh terms)"
proof -
  have keys: "{Str ''month'', Str ''day_of_month'', Str ''hour''}
        \<union> set (mz_energy_names scenario_engine) \<union> set (mz_temp_names scenario_engine)
        \<union> set (mz_hum_names scenario_engine) \<subseteq> dom (scenario_obs 15 18 2000)"
    by (simp add: scenario_engine_def scenario_obs_def)
  have year: "(1::int) \<le> 2024" "(2024::int) \<le> 9999" by simp_all
  from weighted_reward [OF year keys] obtain reward terms where
    "NuestroRewardMultizona_call 2024 scenario_engine (scenario_obs 15 18 2000)
       = Inr (reward, terms)"
    "reward = energy_term terms + comfort_term terms"
    "energy_term terms =
       mz_lambda_energy scenario_engine * mz_W_energy scenario_engine * energy_penalty terms"
    "comfort_term terms =
       mz_lambda_temp scenario_engine * (1 - mz_W_energy scenario_engine)
         * (- total_temperature_violation terms)"
    "energy_penalty terms =
       - ((\<Sum>v\<leftarrow>mz_energy_names scenario_engine. the (scenario_obs 15 18 2000 v)) / 1000)
         * mz_price_kwh terms"
    by blast
  then have "\<exists>reward terms.
        NuestroRewardMultizona_call 2024 scenario_engine (scenario_obs 15 18 2000)
          = Inr (reward, terms)
      \<and> reward = energy_term terms + comfort_term terms
      \<and> energy_term terms = 1 * 0.5 * energy_penalty terms
      \<and> comfort_term terms = 30 * (1 - 0.5) * (- total_temperature_violation terms)
      \<and> energy_penalty terms = - (2000 / 1000) * mz_price_kwh terms"
    by (intro exI [of _ reward] exI [of _ terms])
       (simp add: scenario_engine_def scenario_obs_def)
  with keys year show ?thesis by blast
qed

section \<open>Construction\<close>

text \<open>
  Claim C6. An \<open>energy_weight\<close> outside the interval from 0 to 1 makes the construction
  of LinearReward, NuestroReward, NuestroRewardMultizona and NuestroRewardMultizonaPPO
  raise ValueError, whatever the other arguments: no engine is produced.
\<close>

theorem energy_weight_out_of_range:
  assumes "energy_weight < 0 \<or> 1 < energy_weight"
  shows "LinearReward_init temps1 energy1 winter summer summer_start summer_final
           energy_weight le1 lt1 = Inl ValueError
    \<and> NuestroReward_init temps2 energy2 energy_weight le2 lt2 high2 low2 sched2
           = Inl ValueError
    \<and> NuestroRewardMultizona_init temps3 hums3 energy3 energy_weight le3 lt3 tarifa3
           high3 low3 = Inl ValueError
    \<and> NuestroRewardMultizonaPPO_init temps4 hums4 energy4 energy_weight le4 lt4 tarifa4
           high4 low4 sched4 = Inl ValueError"
  using assms
  by (auto simp: LinearReward_init_def NuestroReward_init_def
        NuestroRewardMultizona_init_def NuestroRewardMultizonaPPO_init_def)

theorem energy_weight_out_of_range_witness:
  "((1.5::real) < 0 \<or> 1 < (1.5::real))
   \<and> LinearReward_init [Str ''east_temp''] [Str ''heat_pump_power''] (20, 23.5) (23, 26)
        (6, 1) (9, 30) 1.5 1 1 = Inl ValueError
   \<and> NuestroReward_init [Str ''east_temp'', Str ''east_rh''] [Str ''heat_pump_power'']
        1.5 1 1 1 1 None = Inl ValueError
   \<and> NuestroRewardMultizona_init [Str ''east_temp''] [Str ''east_rh'']
        [Str ''heat_pump_power''] 1.5 1 1 None 1 1 = Inl ValueError
   \<and> NuestroRewardMultizonaPPO_init [Str ''east_temp''] [Str ''east_rh'']
        [Str ''heat_pump_power''] 1.5 1 1 None 1 1 None = Inl ValueError
   \<and> ((- 0.1::real) < 0 \<or> 1 < (- 0.1::real))
   \<and> LinearReward_init [Str ''east_temp''] [Str ''heat_pump_power''] (20, 23.5) (23, 26)
        (6, 1) (9, 30) (- 0.1) 1 1 = Inl ValueError
   \<and> NuestroReward_init [Str ''east_temp'', Str ''east_rh''] [Str ''heat_pump_power'']
        (- 0.1) 1 1 1 1 None = Inl ValueError
   \<and> NuestroRewardMultizona_init [Str ''east_temp''] [Str ''east_rh'']
        [Str ''heat_pump_power''] (- 0.1) 1 1 None 1 1 = Inl ValueError
   \<and> NuestroRewardMultizonaPPO_init [Str ''east_temp''] [Str ''east_rh'']
        [Str ''heat_pump_power''] (- 0.1) 1 1 None 1 1 None = Inl ValueError"
proof -
  have high: "(1.5::real) < 0 \<or> 1 < (1.5::real)" by simp
  have low: "(- 0.1::real) < 0 \<or> 1 < (- 0.1::real)" by simp
  show ?thesis
    using high low
      energy_weight_out_of_range [OF high,
        of "[Str ''east_temp'']" "[Str ''heat_pump_power'']" "(20, 23.5)" "(23, 26)"
           "(6, 1)" "(9, 30)" 1 1
           "[Str ''east_temp'', Str ''east_rh'']" "[Str ''heat_pump_power'']" 1 1 1 1 None
           "[Str ''east_temp'']" "[Str ''east_rh'']" "[Str ''heat_pump_power'']" 1 1 None 1 1
           "[Str ''east_temp'']" "[Str ''east_rh'']" "[Str ''heat_pump_power'']" 1 1 None 1 1
           None]
      energy_weight_out_of_range [OF low,
        of "[Str ''east_temp'']" "[Str ''heat_pump_power'']" "(20, 23.5)" "(23, 26)"
           "(6, 1)" "(9, 30)" 1 1
           "[Str ''east_temp'', Str ''east_rh'']" "[Str ''heat_pump_power'']" 1 1 1 1 None
           "[Str ''east_temp'']" "[Str ''east_rh'']" "[Str ''heat_pump_power'']" 1 1 None 1 1
           "[Str ''east_temp'']" "[Str ''east_rh'']" "[Str ''heat_pump_power'']" 1 1 None 1 1
           None]
    by blast
qed

text \<open>
  Claim C7 asks that temperature and humidity lists of different lengths make the
  construction fail. With two temperature names and one humidity name the constructor
  returns an engine, and the engine evaluates the one pair that \<^verbatim>\<open>zip\<close> forms.
\<close>

theorem mismatched_lengths_counterexample:
  "NuestroRewardMultizona_init [Str ''east_temp'', Str ''west_temp''] [Str ''east_rh'']
       [Str ''heat_pump_power''] 0.5 1 30 None 10 4 =
     Inr \<lparr>mz_temp_names = [Str ''east_temp'', Str ''west_temp''],
          mz_hum_names = [Str ''east_rh''],
          mz_energy_names = [Str ''heat_pump_power''],
          mz_W_energy = 0.5, mz_lambda_energy = 1, mz_lambda_temp = 30,
          mz_precio_punta = 10, mz_precio_fuera_punta = 4,
          mz_punta_inicio = 17, mz_punta_fin = 20, mz_dias_punta = [0, 1, 2, 3, 4]\<rparr>
   \<and> mz_get_temperature_violation
        \<lparr>mz_temp_names = [Str ''east_temp'', Str ''west_temp''],
         mz_hum_names = [Str ''east_rh''],
         mz_energy_names = [Str ''heat_pump_power''],
         mz_W_energy = 0.5, mz_lambda_energy = 1, mz_lambda_temp = 30,
         mz_precio_punta = 10, mz_precio_fuera_punta = 4,
         mz_punta_inicio = 17, mz_punta_fin = 20, mz_dias_punta = [0, 1, 2, 3, 4]\<rparr>
        (scenario_obs 15 18 2000) 2000 = Inr ([0.46639296], [- 0.8464])"
  by (simp add: NuestroRewardMultizona_init_def mz_get_temperature_violation_def
      scenario_obs_def getitem_def mz_calculate_pmv_violation_def Let_def)

lemma mz_zones_length:
  "mz_zones obs e zs = Inr (vs, ps) \<Longrightarrow> length vs = length zs \<and> length ps = length zs"
  by (induction zs arbitrary: vs ps)
     (auto simp: mz_calculate_pmv_violation_def Let_def split: sum.splits prod.splits)

lemma zip_common_prefix:
  "zip (take (min (length xs) (length ys)) xs) (take (min (length xs) (length ys)) ys)
     = zip xs ys"
proof -
  have "zip (take (min (length xs) (length ys)) xs) (take (min (length xs) (length ys)) ys)
          = take (length (zip xs ys)) (zip xs ys)"
    by (simp add: take_zip)
  then show ?thesis by simp
qed

text \<open>
  Claim C7, as the code has it. NuestroRewardMultizona compares no lengths: with a weight
  in range, string names for temperature and energy and a tariff whose day names are
  known, construction succeeds also when the temperature and humidity lists differ in
  length. The engine keeps both lists as given, and the zone loop, which runs over
  \<^verbatim>\<open>zip\<close>, pairs the common prefix only: it yields as many violations as the shorter
  list has names.
\<close>

theorem mismatched_lengths_accepted:
  assumes weight: "0 \<le> energy_weight" "energy_weight \<le> 1"
    and names: "list_all isinstance_str (temps @ energy)"
    and tariff: "case tarifa_json of None \<Rightarrow> True
                 | Some t \<Rightarrow> \<not> isl (dias_lookup (tf_dias_punta t))"
    and mismatch: "length temps \<noteq> length hums"
    and n: "n = min (length temps) (length hums)"
  shows "\<exists>self.
      NuestroRewardMultizona_init temps hums energy energy_weight lambda_energy
        lambda_temperature tarifa_json high_price low_price = Inr self
    \<and> mz_temp_names self = temps \<and> mz_hum_names self = hums
    \<and> (\<forall>obs e. mz_get_temperature_violation self obs e
                  = mz_zones obs e (zip (take n temps) (take n hums)))
    \<and> (\<forall>obs e vs ps. mz_get_temperature_violation self obs e = Inr (vs, ps)
                  \<longrightarrow> length vs = n \<and> length ps = n)"
proof -
  have "\<exists>self.
      NuestroRewardMultizona_init temps hums energy energy_weight lambda_energy
        lambda_temperature tarifa_json high_price low_price = Inr self
    \<and> mz_temp_names self = temps \<and> mz_hum_names self = hums"
  proof (cases tarifa_json)
    case None
    then show ?thesis
      using weight names by (simp add: NuestroRewardMultizona_init_def)
  next
    case (Some t)
    with tariff obtain dias where "dias_lookup (tf_dias_punta t) = Inr dias"
      by (cases "dias_lookup (tf_dias_punta t)") auto
    then show ?thesis
      using weight names Some by (simp add: NuestroRewardMultizona_init_def)
  qed
  then obtain self where
    init: "NuestroRewardMultizona_init temps hums energy energy_weight lambda_energy
             lambda_temperature tarifa_json high_price low_price = Inr self"
    and lists: "mz_temp_names self = temps" "mz_hum_names self = hums"
    by blast
  have pairs: "mz_get_temperature_violation self obs e
                 = mz_zones obs e (zip (take n temps) (take n hums))" for obs e
    unfolding mz_get_temperature_violation_def lists n zip_common_prefix ..
  have "length vs = n \<and> length ps = n"
    if "mz_get_temperature_violation self obs e = Inr (vs, ps)" for obs e vs ps
  proof -
    from that have "mz_zones obs e (zip temps hums) = Inr (vs, ps)"
      by (simp add: mz_get_temperature_violation_def lists)
    from mz_zones_length [OF this] show ?thesis by (simp add: n)
  qed
  with init lists pairs show ?thesis by blast
qed

theorem mismatched_lengths_accepted_witness:
  "\<exists>self.
      NuestroRewardMultizona_init [Str ''east_temp'', Str ''west_temp''] [Str ''east_rh'']
        [Str ''heat_pump_power''] 0.5 1 30 None 10 4 = Inr self
    \<and> mz_temp_names self = [Str ''east_temp'', Str ''west_temp'']
    \<and> mz_hum_names self = [Str ''east_rh'']
    \<and> (\<forall>obs e. mz_get_temperature_violation self obs e
                  = mz_zones obs e [(Str ''east_temp'', Str ''east_rh'')])
    \<and> (\<forall>obs e vs ps. mz_get_temperature_violation self obs e = Inr (vs, ps)
                  \<longrightarrow> length vs = 1 \<and> length ps = 1)"
  using mismatched_lengths_accepted [of "0.5" "[Str ''east_temp'', Str ''west_temp'']"
      "[Str ''heat_pump_power'']" None "[Str ''east_rh'']" 1 1 30 10 4]
  by simp

section \<open>The comma in NuestroReward\<close>

text \<open>
  Claim C9. In \<^verbatim>\<open>NuestroReward._get_temperature_violation\<close> the expression with the
  literal \<^verbatim>\<open>-0,5\<close> is the maximum of 0, \<open>5 - PMV\<close>, 0, \<open>PMV\<close> and 5. Whenever the
  function returns, its one violation is at least 5: it differs from the band formula
  \<open>max (-0.5 - PMV) 0 (PMV - 0.5)\<close> for every temperature and humidity and is never 0,
  also when the index lies inside the band.
\<close>

theorem comma_literal_violation:
  assumes names: "nr_temp_names self = name0 # name1 # rest"
    and obs: "obs name0 = Some tdb" "obs name1 = Some rh"
    and pmv: "pmv = - 7.4928 + 0.2882 * tdb - 0.0020 * rh + 0.0004 * tdb * rh"
  shows "\<exists>v. nr_get_temperature_violation self obs = Inr [v]
    \<and> v = max 5 (max (5 - pmv) pmv)
    \<and> v \<noteq> max (- 0.5 - pmv) (max 0 (pmv - 0.5))
    \<and> v \<noteq> 0 \<and> 5 \<le> v"
proof -
  define v where "v = max 5 (max (5 - pmv) pmv)"
  have "nr_get_temperature_violation self obs =
          Inr [max (- 0) (max (5 - pmv) (max 0 (max (pmv - 0) 5)))]"
    unfolding pmv by (simp add: nr_get_temperature_violation_def names getitem_def obs Let_def)
  moreover have "max (- 0) (max (5 - pmv) (max 0 (max (pmv - 0) 5))) = v"
    unfolding v_def by (auto simp: max_def)
  ultimately have "nr_get_temperature_violation self obs = Inr [v]" by simp
  moreover have "5 \<le> v" by (simp add: v_def)
  moreover have "max (- 0.5 - pmv) (max 0 (pmv - 0.5)) < v"
    unfolding v_def by (auto simp: max_def)
  ultimately show ?thesis using v_def by auto
qed

theorem comma_literal_violation_witness:
  "nr_get_temperature_violation presence_engine comfortable_obs = Inr [5]
   \<and> - 0.5 \<le> - 7.4928 + 0.2882 * 25 - 0.0020 * 50 + 0.0004 * 25 * (50::real)
   \<and> - 7.4928 + 0.2882 * 25 - 0.0020 * 50 + 0.0004 * 25 * (50::real) \<le> 0.5"
proof -
  have names: "nr_temp_names presence_engine = Str ''east_temp'' # Str ''east_rh'' # []"
    by (simp add: presence_engine_def)
  have obs: "comfortable_obs (Str ''east_temp'') = Some 25"
    "comfortable_obs (Str ''east_rh'') = Some 50"
    by (simp_all add: comfortable_obs_def)
  from comma_literal_violation [OF names obs refl]
  have "nr_get_temperature_violation presence_engine comfortable_obs = Inr [5]"
    by auto
  then show ?thesis by simp
qed

section \<open>Missing fields in the API observation\<close>

text \<open>
  One turn of the loop of \<^verbatim>\<open>_get_observation_api\<close>. A variable that is absent from
  the response and is unmapped, or mapped to a field absent from the response, appends
  0.0 and the loop goes on; nothing is converted, so nothing can raise.
\<close>

lemma api_values_missing:
  assumes "data n = None"
    and "(case field_mapping config of None \<Rightarrow> Map.empty | Some m \<Rightarrow> m) n = None
         \<or> (\<exists>f. (case field_mapping config of None \<Rightarrow> Map.empty | Some m \<Rightarrow> m) n = Some f
                \<and> data f = None)"
  shows "api_values py_float config data (n # names) acc
           = api_values py_float config data names (acc @ [0])"
  using assms by auto

text \<open>A turn of the loop whose conversion, if it makes one, succeeds.\<close>

lemma api_values_step:
  assumes "\<forall>x. data n = Some x \<longrightarrow> py_float x \<noteq> None"
    and "\<forall>f x. data n = None \<longrightarrow>
           (case field_mapping config of None \<Rightarrow> Map.empty | Some m \<Rightarrow> m) n = Some f \<longrightarrow>
           data f = Some x \<longrightarrow> py_float x \<noteq> None"
  shows "\<exists>v. api_values py_float config data (n # names) acc
               = api_values py_float config data names (acc @ [v])
          \<and> (data n = None
              \<and> ((case field_mapping config of None \<Rightarrow> Map.empty | Some m \<Rightarrow> m) n = None
                 \<or> (\<exists>f. (case field_mapping config of None \<Rightarrow> Map.empty | Some m \<Rightarrow> m) n
                          = Some f \<and> data f = None))
              \<longrightarrow> v = 0)"
proof -
  define mapping where
    "mapping = (case field_mapping config of None \<Rightarrow> Map.empty | Some m \<Rightarrow> m)"
  have here: "\<And>x. data n = Some x \<Longrightarrow> py_float x \<noteq> None"
    "\<And>f x. data n = None \<Longrightarrow> mapping n = Some f \<Longrightarrow> data f = Some x
       \<Longrightarrow> py_float x \<noteq> None"
    using assms unfolding mapping_def by blast+
  show ?thesis
    unfolding mapping_def [symmetric]
  proof (cases "data n")
    case (Some x)
    with here(1) obtain v where "py_float x = Some v" by fastforce
    with Some show "\<exists>v. api_values py_float config data (n # names) acc
               = api_values py_float config data names (acc @ [v])
          \<and> (data n = None
              \<and> (mapping n = None \<or> (\<exists>f. mapping n = Some f \<and> data f = None))
              \<longrightarrow> v = 0)"
      by (intro exI [of _ v]) simp
  next
    case None
    show "\<exists>v. api_values py_float config data (n # names) acc
               = api_values py_float config data names (acc @ [v])
          \<and> (data n = None
              \<and> (mapping n = None \<or> (\<exists>f. mapping n = Some f \<and> data f = None))
              \<longrightarrow> v = 0)"
    proof (cases "mapping n")
      case no_map: None
      with None show ?thesis
        by (intro exI [of _ 0]) (simp add: mapping_def [symmetric])
    next
      case (Some f)
      show ?thesis
      proof (cases "data f")
        case no_field: None
        with None Some show ?thesis
          by (intro exI [of _ 0]) (simp add: mapping_def [symmetric])
      next
        case field: (Some x)
        with here(2) [OF None Some] obtain v where "py_float x = Some v" by fastforce
        with None Some field show ?thesis
          by (intro exI [of _ v]) (simp add: mapping_def [symmetric])
      qed
    qed
  qed
qed

text \<open>When every conversion succeeds the loop returns one value per variable.\<close>

lemma api_values_append:
  assumes "\<forall>n\<in>set names.
      (\<forall>x. data n = Some x \<longrightarrow> py_float x \<noteq> None)
    \<and> (\<forall>f x. data n = None \<longrightarrow>
           (case field_mapping config of None \<Rightarrow> Map.empty | Some m \<Rightarrow> m) n = Some f \<longrightarrow>
           data f = Some x \<longrightarrow> py_float x \<noteq> None)"
  shows "\<exists>vs. api_values py_float config data names acc = Some (acc @ vs)
    \<and> length vs = length names
    \<and> (\<forall>i<length names.
          data (names ! i) = None
          \<and> ((case field_mapping config of None \<Rightarrow> Map.empty | Some m \<Rightarrow> m) (names ! i) = None
             \<or> (\<exists>f. (case field_mapping config of None \<Rightarrow> Map.empty | Some m \<Rightarrow> m) (names ! i)
                      = Some f \<and> data f = None))
          \<longrightarrow> vs ! i = 0)"
  using assms
proof (induction names arbitrary: acc)
  case Nil
  then show ?case by simp
next
  case (Cons n names)
  define mapping where
    "mapping = (case field_mapping config of None \<Rightarrow> Map.empty | Some m \<Rightarrow> m)"
  define missing where
    "missing k \<longleftrightarrow> data k = None
       \<and> (mapping k = None \<or> (\<exists>f. mapping k = Some f \<and> data f = None))" for k
  from Cons.prems have rest: "\<forall>n\<in>set names.
      (\<forall>x. data n = Some x \<longrightarrow> py_float x \<noteq> None)
    \<and> (\<forall>f x. data n = None \<longrightarrow>
           (case field_mapping config of None \<Rightarrow> Map.empty | Some m \<Rightarrow> m) n = Some f \<longrightarrow>
           data f = Some x \<longrightarrow> py_float x \<noteq> None)"
    by simp
  from Cons.prems have here:
    "\<forall>x. data n = Some x \<longrightarrow> py_float x \<noteq> None"
    "\<forall>f x. data n = None \<longrightarrow>
       (case field_mapping config of None \<Rightarrow> Map.empty | Some m \<Rightarrow> m) n = Some f \<longrightarrow>
       data f = Some x \<longrightarrow> py_float x \<noteq> None"
    by simp_all
  from api_values_step [OF here, of names acc]
  obtain v where
    v: "api_values py_float config data (n # names) acc
          = api_values py_float config data names (acc @ [v])"
    and v0: "missing n \<Longrightarrow> v = 0"
    unfolding missing_def mapping_def by blast
  from Cons.IH [OF rest, of "acc @ [v]"] obtain vs where
    vs: "api_values py_float config data names (acc @ [v]) = Some ((acc @ [v]) @ vs)"
    and len: "length vs = length names"
    and zero: "\<And>i. i < length names \<Longrightarrow> missing (names ! i) \<Longrightarrow> vs ! i = 0"
    unfolding missing_def mapping_def by blast
  have "(v # vs) ! i = 0" if "i < length (n # names)" "missing ((n # names) ! i)" for i
    using that v0 zero by (cases i) auto
  then have "\<forall>i<length (n # names). missing ((n # names) ! i) \<longrightarrow> (v # vs) ! i = 0"
    by blast
  moreover have "api_values py_float config data (n # names) acc = Some (acc @ v # vs)"
    using v vs by simp
  moreover have "length (v # vs) = length (n # names)" using len by simp
  ultimately show ?case
    unfolding missing_def mapping_def by blast
qed

text \<open>When some conversion fails the loop is left by the exception.\<close>

lemma api_values_raises:
  assumes "\<exists>n\<in>set names.
      (\<exists>x. data n = Some x \<and> py_float x = None)
    \<or> (data n = None
       \<and> (\<exists>f x. (case field_mapping config of None \<Rightarrow> Map.empty | Some m \<Rightarrow> m) n = Some f
                 \<and> data f = Some x \<and> py_float x = None))"
  shows "api_values py_float config data names acc = None"
  using assms
proof (induction names arbitrary: acc)
  case Nil
  then show ?case by simp
next
  case (Cons n names)
  define mapping where
    "mapping = (case field_mapping config of None \<Rightarrow> Map.empty | Some m \<Rightarrow> m)"
  define bad where
    "bad k \<longleftrightarrow> (\<exists>x. data k = Some x \<and> py_float x = None)
       \<or> (data k = None \<and> (\<exists>f x. mapping k = Some f \<and> data f = Some x \<and> py_float x = None))"
    for k
  show ?case
  proof (cases "bad n")
    case True
    then show ?thesis
      unfolding bad_def mapping_def by (auto split: option.splits)
  next
    case False
    with Cons.prems have later: "\<exists>k\<in>set names. bad k"
      unfolding bad_def mapping_def by auto
    from False have
      "\<forall>x. data n = Some x \<longrightarrow> py_float x \<noteq> None"
      "\<forall>f x. data n = None \<longrightarrow>
         (case field_mapping config of None \<Rightarrow> Map.empty | Some m \<Rightarrow> m) n = Some f \<longrightarrow>
         data f = Some x \<longrightarrow> py_float x \<noteq> None"
      unfolding bad_def mapping_def by auto
    from api_values_step [OF this, of names acc]
    obtain v where
      "api_values py_float config data (n # names) acc
         = api_values py_float config data names (acc @ [v])"
      by blast
    moreover have "api_values py_float config data names (acc @ [v]) = None"
      using later unfolding bad_def mapping_def by (intro Cons.IH)
    ultimately show ?thesis by simp
  qed
qed

text \<open>
  Claim C10 asks that every variable missing from the response have 0.0 at its position
  in the observation. In the example environment \<open>heat_pump_power\<close> is missing and
  unmapped, and the response holds null for \<open>east_temp\<close>: the conversion of null
  raises, the \<^verbatim>\<open>except\<close> branch gives up the vector, and the result is the simulated
  observation, in which a name containing \<open>power\<close> gets a random consumption.
\<close>

theorem missing_fields_counterexample:
  "get_observation_api (\<lambda>x. x) production_env (Some null_response) = Simulated
   \<and> ''heat_pump_power'' \<in> set (variable_names production_env)
   \<and> null_response ''heat_pump_power'' = None
   \<and> (case field_mapping (api_config production_env) of
         None \<Rightarrow> Map.empty | Some m \<Rightarrow> m) ''heat_pump_power'' = None"
  by (simp add: get_observation_api_def production_env_def null_response_def)

text \<open>
  Claim C10, as the code has it. With an endpoint configured and a JSON object as the
  response: a variable that is absent from the response and is either unmapped or mapped
  to a field absent from the response makes the loop append 0.0 and go on, whatever the
  other fields are. The vector the loop builds is the result exactly when every field
  that the loop reads converts to a float; it then has one entry per variable and 0.0 at
  the position of every such missing variable. When a field that the loop reads does not
  convert, the result is the simulated observation instead. No error leaves the function
  in either case.
\<close>

theorem missing_fields_default_to_zero:
  assumes endpoint: "observation_endpoint (api_config self) = Some url" "url \<noteq> []"
    and mapping: "mapping = (case field_mapping (api_config self) of
                               None \<Rightarrow> Map.empty | Some m \<Rightarrow> m)"
  shows "(\<forall>n rest acc.
            data n = None
            \<and> (mapping n = None \<or> (\<exists>f. mapping n = Some f \<and> data f = None)) \<longrightarrow>
            api_values py_float (api_config self) data (n # rest) acc
              = api_values py_float (api_config self) data rest (acc @ [0]))
    \<and> ((\<forall>n\<in>set (variable_names self).
            (\<forall>x. data n = Some x \<longrightarrow> py_float x \<noteq> None)
          \<and> (\<forall>f x. data n = None \<longrightarrow> mapping n = Some f \<longrightarrow> data f = Some x
                 \<longrightarrow> py_float x \<noteq> None)) \<longrightarrow>
         (\<exists>values.
            get_observation_api py_float self (Some data) = Values values
          \<and> length values = length (variable_names self)
          \<and> (\<forall>i<length (variable_names self).
                data (variable_names self ! i) = None
                \<and> (mapping (variable_names self ! i) = None
                   \<or> (\<exists>f. mapping (variable_names self ! i) = Some f \<and> data f = None))
                \<longrightarrow> values ! i = 0)))
    \<and> (\<not> (\<forall>n\<in>set (variable_names self).
            (\<forall>x. data n = Some x \<longrightarrow> py_float x \<noteq> None)
          \<and> (\<forall>f x. data n = None \<longrightarrow> mapping n = Some f \<longrightarrow> data f = Some x
                 \<longrightarrow> py_float x \<noteq> None)) \<longrightarrow>
         get_observation_api py_float self (Some data) = Simulated)"
proof (intro conjI allI impI)
  fix n rest acc
  assume "data n = None
          \<and> (mapping n = None \<or> (\<exists>f. mapping n = Some f \<and> data f = None))"
  then show "api_values py_float (api_config self) data (n # rest) acc
               = api_values py_float (api_config self) data rest (acc @ [0])"
    unfolding mapping by (intro api_values_missing) blast+
next
  assume convert: "\<forall>n\<in>set (variable_names self).
        (\<forall>x. data n = Some x \<longrightarrow> py_float x \<noteq> None)
      \<and> (\<forall>f x. data n = None \<longrightarrow> mapping n = Some f \<longrightarrow> data f = Some x
             \<longrightarrow> py_float x \<noteq> None)"
  from api_values_append [OF convert [unfolded mapping], of "[]"]
  obtain vs where
    "api_values py_float (api_config self) data (variable_names self) [] = Some vs"
    "length vs = length (variable_names self)"
    "\<forall>i<length (variable_names self).
          data (variable_names self ! i) = None
          \<and> (mapping (variable_names self ! i) = None
             \<or> (\<exists>f. mapping (variable_names self ! i) = Some f \<and> data f = None))
          \<longrightarrow> vs ! i = 0"
    unfolding mapping by auto
  then show "\<exists>values.
      get_observation_api py_float self (Some data) = Values values
    \<and> length values = length (variable_names self)
    \<and> (\<forall>i<length (variable_names self).
          data (variable_names self ! i) = None
          \<and> (mapping (variable_names self ! i) = None
             \<or> (\<exists>f. mapping (variable_names self ! i) = Some f \<and> data f = None))
          \<longrightarrow> values ! i = 0)"
    using endpoint by (simp add: get_observation_api_def)
next
  assume "\<not> (\<forall>n\<in>set (variable_names self).
        (\<forall>x. data n = Some x \<longrightarrow> py_float x \<noteq> None)
      \<and> (\<forall>f x. data n = None \<longrightarrow> mapping n = Some f \<longrightarrow> data f = Some x
             \<longrightarrow> py_float x \<noteq> None))"
  then have "\<exists>n\<in>set (variable_names self).
      (\<exists>x. data n = Some x \<and> py_float x = None)
    \<or> (data n = None
       \<and> (\<exists>f x. (case field_mapping (api_config self) of
                    None \<Rightarrow> Map.empty | Some m \<Rightarrow> m) n = Some f
                 \<and> data f = Some x \<and> py_float x = None))"
    unfolding mapping by auto
  from api_values_raises [OF this]
  have "api_values py_float (api_config self) data (variable_names self) [] = None" .
  then show "get_observation_api py_float self (Some data) = Simulated"
    using endpoint by (simp add: get_observation_api_def)
qed

text \<open>
  The example environment with a response of numbers, where both missing variables get
  0.0, and with the null response, where the simulated observation is the result.
\<close>

theorem missing_fields_default_to_zero_witness:
  "(\<exists>vs. get_observation_api Some production_env (Some production_response) = Values vs
      \<and> length vs = 3 \<and> vs ! 1 = 0 \<and> vs ! 2 = 0)
   \<and> production_response ''east_rh'' = None
   \<and> production_response ''humidity'' = None
   \<and> production_response ''heat_pump_power'' = None
   \<and> get_observation_api (\<lambda>x. x) production_env (Some null_response) = Simulated
   \<and> null_response ''east_temp'' = Some None"
proof -
  have endpoint:
    "observation_endpoint (api_config production_env) = Some ''http://localhost/obs''"
    "''http://localhost/obs'' \<noteq> []"
    by (simp_all add: production_env_def)
  have names: "variable_names production_env = [''east_temp'', ''east_rh'', ''heat_pump_power'']"
    and mapping: "field_mapping (api_config production_env) = Some [''east_rh'' \<mapsto> ''humidity'']"
    by (simp_all add: production_env_def)
  have absent: "production_response ''east_rh'' = None"
    "production_response ''humidity'' = None"
    "production_response ''heat_pump_power'' = None"
    by (simp_all add: production_response_def)
  have null: "null_response ''east_temp'' = Some None"
    by (simp add: null_response_def)
  note numbers = missing_fields_default_to_zero [OF endpoint refl,
      of production_response Some, THEN conjunct2, THEN conjunct1, THEN mp]
  note nulls = missing_fields_default_to_zero [OF endpoint refl,
      of null_response "\<lambda>x. x", THEN conjunct2, THEN conjunct2, THEN mp]
  have convert: "\<forall>n\<in>set (variable_names production_env).
        (\<forall>x. production_response n = Some x \<longrightarrow> Some x \<noteq> None)
      \<and> (\<forall>f x. production_response n = None \<longrightarrow>
             (case field_mapping (api_config production_env) of
                None \<Rightarrow> Map.empty | Some m \<Rightarrow> m) n = Some f \<longrightarrow>
             production_response f = Some x \<longrightarrow> Some x \<noteq> None)"
    by simp
  from numbers [OF convert] obtain vs where
    vs: "get_observation_api Some production_env (Some production_response) = Values vs"
    and len: "length vs = length (variable_names production_env)"
    and zero: "\<And>i. i < length (variable_names production_env) \<Longrightarrow>
          production_response (variable_names production_env ! i) = None
          \<and> ((case field_mapping (api_config production_env) of
                 None \<Rightarrow> Map.empty | Some m \<Rightarrow> m) (variable_names production_env ! i) = None
             \<or> (\<exists>f. (case field_mapping (api_config production_env) of
                        None \<Rightarrow> Map.empty | Some m \<Rightarrow> m) (variable_names production_env ! i)
                      = Some f \<and> production_response f = None))
          \<Longrightarrow> vs ! i = 0"
    by blast
  have "vs ! 1 = 0"
    using zero [of 1] absent by (simp add: names mapping)
  moreover have "vs ! 2 = 0"
    using zero [of 2] absent by (simp add: names mapping)
  moreover have "length vs = 3" using len by (simp add: names)
  ultimately have first: "\<exists>vs.
      get_observation_api Some production_env (Some production_response) = Values vs
    \<and> length vs = 3 \<and> vs ! 1 = 0 \<and> vs ! 2 = 0"
    using vs by blast
  have "\<not> (\<forall>n\<in>set (variable_names production_env).
        (\<forall>x. null_response n = Some x \<longrightarrow> x \<noteq> None)
      \<and> (\<forall>f x. null_response n = None \<longrightarrow>
             (case field_mapping (api_config production_env) of
                None \<Rightarrow> Map.empty | Some m \<Rightarrow> m) n = Some f \<longrightarrow>
             null_response f = Some x \<longrightarrow> x \<noteq> None))"
    using null by (auto simp: names)
  from nulls [OF this]
  have second: "get_observation_api (\<lambda>x. x) production_env (Some null_response) = Simulated" .
  from first second absent null show ?thesis by blast
qed

text \<open>The response of numbers evaluated: the vector is 21.5, 0, 0.\<close>

lemma production_observation:
  "get_observation_api Some production_env (Some production_response) = Values [21.5, 0, 0]"
  by (simp add: get_observation_api_def production_env_def production_response_def)

section \<open>The presence schedule and the energy weight\<close>

lemmas nr_call_defs = NuestroReward_call_def nr_get_energy_consumed_def
  nr_get_temperature_violation_def nr_get_reward_def schedule_rows_def getitem_def

lemmas ppo_call_defs = NuestroRewardMultizonaPPO_call_def ppo_get_energy_consumed_def
  ppo_get_temperature_violation_def ppo_calculate_pmv_violation_def schedule_rows_def
  getitem_def

text \<open>
  The example engines on Monday January 15, 2024: first at 18 h, where the schedule has
  the factor 0, then, as the first call left them, at 19 h, where it has the factor 1.
\<close>

lemma presence_engine_18:
  "NuestroReward_call 2024 presence_engine (scenario_obs 15 18 2000) =
     Inr (presence_engine\<lparr>nr_W_energy := 1\<rparr>, - 20,
          \<lparr>energy_term = - 20, comfort_term = 0, energy_penalty = - 20,
           comfort_penalty = - 5.8464, total_power_demand = 2000,
           total_temperature_violation = 5.8464, reward_weight = 1\<rparr>)"
  by (simp add: nr_call_defs presence_engine_def presence_schedule_def scenario_obs_def
      calendar_defs Let_def)


lemma presence_engine_ppo_18:
  "NuestroRewardMultizonaPPO_call 2024 presence_engine_ppo (scenario_obs 15 18 2000) =
     Inr (presence_engine_ppo\<lparr>ppo_W_energy := 1\<rparr>, - 2000,
          \<lparr>energy_term = - 1500, comfort_term = 0, energy_penalty = - 300,
           comfort_penalty = - 0.46639296, total_power_demand = 2000,
           total_temperature_violation = 0.46639296, reward_weight = 1,
           ppo_comfort_bonus = 0, ppo_flat_peak_penalty = - 500, ppo_avg_pmv = - 0.8464,
           ppo_waste_factor = 1, ppo_is_peak = True\<rparr>)"
  by (simp add: ppo_call_defs presence_engine_ppo_def presence_schedule_def scenario_obs_def
      calendar_defs Let_def)







end
